theory Spec2Isabelle
  imports Complex_Main
begin

section \<open>Audio Editor Pro backend: a model of \<open>backend/main.py\<close>\<close>

text \<open>
  The backend is a set of HTTP handlers that validate a request, copy the upload to a
  scratch file, run the external tool \<open>ffmpeg\<close> as a child process, check the output
  file and answer with URLs. Everything outside the repository (the Python runtime, the
  operating system, the child process) is a parameter of the model, collected in the
  record \<open>runtime\<close>; the files on disk, the calls the handlers make to the operating
  system and the log are the explicit state \<open>world\<close> that every handler takes and
  returns. Exceptions are values of the type \<open>exn\<close>: a handler returns
  \<open>Inl\<close> of the exception it raises or \<open>Inr\<close> of its JSON answer.
\<close>

subsection \<open>Python values\<close>

text \<open>
  A Python \<open>float\<close>, as far as the handlers look at it: they compare it and format it.
  The comparisons are the IEEE ones (every comparison with NaN is false). Subtraction
  (which rounds) and \<open>str\<close> belong to the runtime.
\<close>

datatype pyfloat = Fin real | PosInf | NegInf | NaN

fun float_lt :: "pyfloat \<Rightarrow> pyfloat \<Rightarrow> bool" where
  "float_lt (Fin a) (Fin b) = (a < b)"
| "float_lt (Fin a) PosInf = True"
| "float_lt NegInf (Fin b) = True"
| "float_lt NegInf PosInf = True"
| "float_lt _ _ = False"

definition float_eq :: "pyfloat \<Rightarrow> pyfloat \<Rightarrow> bool" where
  "float_eq a b = (a \<noteq> NaN \<and> a = b)"

definition float_le :: "pyfloat \<Rightarrow> pyfloat \<Rightarrow> bool" where
  "float_le a b = (float_lt a b \<or> float_eq a b)"

definition float_ge :: "pyfloat \<Rightarrow> pyfloat \<Rightarrow> bool" where
  "float_ge a b = float_le b a"

text \<open>
  \<open>str.replace(old, new)\<close>: every occurrence of \<open>old\<close>, found from the left and
  without overlap, becomes \<open>new\<close>. With an empty \<open>old\<close> Python puts \<open>new\<close> before
  every character and at the end.
\<close>

function replace_nonempty :: "string \<Rightarrow> string \<Rightarrow> string \<Rightarrow> string" where
  "replace_nonempty old new [] = []"
| "replace_nonempty old new (c # cs) =
     (if old \<noteq> [] \<and> take (length old) (c # cs) = old
      then new @ replace_nonempty old new (drop (length old) (c # cs))
      else c # replace_nonempty old new cs)"
  by pat_completeness auto
termination
  by (relation "measure (\<lambda>(old, new, s). length s)") (auto simp: neq_Nil_conv)

definition str_replace :: "string \<Rightarrow> string \<Rightarrow> string \<Rightarrow> string" where
  "str_replace old new s =
     (if old = [] then new @ concat (map (\<lambda>c. c # new) s) else replace_nonempty old new s)"

subsection \<open>Request models\<close>

text \<open>
  The pydantic models \<open>TrackData\<close>, \<open>ExportMixRequest\<close> and \<open>ExportTrackRequest\<close>.
  The field \<open>id\<close> is \<open>track_id\<close> here, and the fields of the single-track request
  carry the prefix \<open>track_\<close>, since a field name is a constant of the theory.
\<close>

record track_data =
  track_id :: string
  url :: string
  volume :: pyfloat
  muted :: bool
  solo :: bool

record export_mix_request =
  tracks :: "track_data list"
  format :: string
  quality :: string

record export_track_request =
  track :: track_data
  track_format :: string
  track_quality :: string

text \<open>
  An \<open>UploadFile\<close>: its file name, if the client sent one, and what \<open>await file.read()\<close>
  gives: the bytes, or an exception (\<open>Inl\<close> of its \<open>str\<close>).
\<close>

record upload_file =
  filename :: "string option"
  read_result :: "string + string"

subsection \<open>Exceptions, the runtime and the world\<close>

datatype exn = HTTPException nat string | Exception string

text \<open>
  What \<open>subprocess.run\<close> does: the child exits with a return code and its standard error
  text, or the call raises \<open>TimeoutExpired\<close>, \<open>FileNotFoundError\<close> or another
  exception (with its \<open>str\<close>).
\<close>

datatype proc_result =
  Exited int string | TimeoutExpired | FileNotFoundError string | OtherError string

text \<open>
  What \<open>with open(p, "wb") as buffer: buffer.write(content)\<close> does: the file holds the
  content, or \<open>open\<close> raises and the files are as before, or \<open>write\<close> raises and the
  file holds a part of the content.
\<close>

datatype write_result = Written | OpenFailed string | WriteFailed string string

datatype level = INFO | WARNING | ERROR

text \<open>The calls a handler makes to the operating system, in order.\<close>

datatype event = Spawn "string list" nat | Write string | Unlink string

type_synonym files = "string \<rightharpoonup> string"

record world =
  fs :: files
  trace :: "event list"
  log :: "level list"
  uuids :: nat

text \<open>
  \<open>fs\<close> maps a path to the bytes of the file there; \<open>trace\<close> lists the processes
  spawned (with the timeout), the files opened for writing and the files unlinked; \<open>log\<close>
  has the level of every \<open>logger\<close> call (the message texts are not modelled); \<open>uuids\<close>
  counts the calls of \<open>uuid.uuid4()\<close>.
\<close>

record runtime =
  uuid_str :: "nat \<Rightarrow> string"
  path_suffix :: "string \<Rightarrow> string"
  float_str :: "pyfloat \<Rightarrow> string"
  float_sub :: "pyfloat \<Rightarrow> pyfloat \<Rightarrow> pyfloat"
  run_proc :: "string list \<Rightarrow> nat \<Rightarrow> files \<Rightarrow> proc_result \<times> files"
  write_outcome :: "string \<Rightarrow> string \<Rightarrow> write_result"
  unlink_error :: "string \<Rightarrow> string option"
  stat_error :: "string \<Rightarrow> string option"

text \<open>
  \<open>uuid_str n\<close> is \<open>str(uuid.uuid4())\<close> at the \<open>n\<close>-th call; \<open>path_suffix\<close> is
  \<open>Path(name).suffix\<close>; \<open>float_str\<close> is \<open>str\<close> on a float and \<open>float_sub\<close> the
  float subtraction; \<open>run_proc command timeout files\<close> is the result of
  \<open>subprocess.run\<close> and the files the child leaves; \<open>write_outcome path content\<close> is
  the result of writing a file; \<open>unlink_error path\<close> is \<open>None\<close> when \<open>unlink\<close>
  removes the file and the \<open>str\<close> of the exception when it raises; \<open>stat_error path\<close>
  is the \<open>str\<close> of the \<open>OSError\<close> that \<open>os.stat\<close> raises on the path for another
  reason than the path not being there (a name that is too long, a directory that may not
  be searched), and \<open>None\<close> when it raises no such error.
\<close>

definition logger :: "level \<Rightarrow> world \<Rightarrow> world" where
  "logger lvl w = w\<lparr>log := log w @ [lvl]\<rparr>"

definition uuid4 :: "runtime \<Rightarrow> world \<Rightarrow> string \<times> world" where
  "uuid4 env w = (uuid_str env (uuids w), w\<lparr>uuids := Suc (uuids w)\<rparr>)"

definition subprocess_run :: "runtime \<Rightarrow> string list \<Rightarrow> nat \<Rightarrow> world \<Rightarrow> proc_result \<times> world" where
  "subprocess_run env command timeout w =
     (let (r, files') = run_proc env command timeout (fs w)
      in (r, w\<lparr>fs := files', trace := trace w @ [Spawn command timeout]\<rparr>))"

text \<open>\<open>Path.exists()\<close>, and the check of an output: it exists and its size is not 0.\<close>

definition path_exists :: "world \<Rightarrow> string \<Rightarrow> bool" where
  "path_exists w p = (fs w p \<noteq> None)"

definition st_size :: "world \<Rightarrow> string \<Rightarrow> nat" where
  "st_size w p = (case fs w p of None \<Rightarrow> 0 | Some content \<Rightarrow> length content)"

subsection \<open>The helpers of \<open>main.py\<close>\<close>

definition check_ffmpeg :: "runtime \<Rightarrow> world \<Rightarrow> (exn + bool) \<times> world" where
  "check_ffmpeg env w =
     (let (result, w') = subprocess_run env [''ffmpeg'', ''-version''] 10 w
      in (case result of
            Exited returncode err \<Rightarrow> Inr (returncode = 0)
          | FileNotFoundError m \<Rightarrow> Inr False
          | TimeoutExpired \<Rightarrow> Inr False
          | OtherError m \<Rightarrow> Inl (Exception m), w'))"

definition quality_map :: "(string \<times> string list) list" where
  "quality_map =
     [(''high'', [''-b:a'', ''320k'']),
      (''medium'', [''-b:a'', ''192k'']),
      (''low'', [''-b:a'', ''128k''])]"

definition get_quality_settings :: "string \<Rightarrow> string \<Rightarrow> string list" where
  "get_quality_settings format_type qual =
     (if format_type = ''mp3'' then
        (case map_of quality_map qual of Some settings \<Rightarrow> settings | None \<Rightarrow> [''-b:a'', ''192k''])
      else if format_type = ''wav'' then [''-acodec'', ''pcm_s16le'']
      else [])"

text \<open>
  \<open>run_ffmpeg_command\<close>: \<open>subprocess.run\<close> with \<open>check=True\<close> raises
  \<open>CalledProcessError\<close> on a return code other than 0; the three \<open>except\<close> clauses
  catch it, the timeout and every other exception.
\<close>

definition run_ffmpeg_command :: "runtime \<Rightarrow> string list \<Rightarrow> nat \<Rightarrow> world \<Rightarrow> bool \<times> world" where
  "run_ffmpeg_command env command timeout w =
     (let (result, w') = subprocess_run env command timeout (logger INFO w)
      in (case result of
            Exited returncode err \<Rightarrow>
              if returncode = 0 then (True, logger INFO w') else (False, logger ERROR w')
          | TimeoutExpired \<Rightarrow> (False, logger ERROR w')
          | FileNotFoundError m \<Rightarrow> (False, logger ERROR w')
          | OtherError m \<Rightarrow> (False, logger ERROR w')))"

subsection \<open>The scratch input of an upload handler\<close>

text \<open>
  The four upload handlers share, line for line, the scratch file's life:
  \<open>temp_input = TEMP_DIR / f"input_{uuid.uuid4()}{suffix}"\<close>, the read of the upload and
  the write of the scratch file at the head of the \<open>try\<close> block, the two \<open>except\<close>
  clauses and the \<open>finally\<close> block. A path is the string the handler builds:
  \<open>TEMP_DIR / name\<close> is \<open>temp/\<close> and the name, \<open>OUTPUT_DIR / name\<close> is \<open>outputs/\<close>
  and the name.
\<close>

definition ffmpeg_unavailable :: string where
  "ffmpeg_unavailable = ''FFmpeg is not available. Please install FFmpeg.''"

definition upload_suffix :: "runtime \<Rightarrow> upload_file \<Rightarrow> string" where
  "upload_suffix env file =
     (case filename file of
        None \<Rightarrow> ''.wav''
      | Some name \<Rightarrow> if name = [] then ''.wav'' else path_suffix env name)"

definition temp_input :: "runtime \<Rightarrow> upload_file \<Rightarrow> string \<Rightarrow> string" where
  "temp_input env file u = ''temp/'' @ ''input_'' @ u @ upload_suffix env file"

text \<open>
  \<open>content = await file.read()\<close> and \<open>with open(temp_input, "wb") as buffer:
  buffer.write(content)\<close>; the result is \<open>len(content)\<close>.
\<close>

definition save_upload :: "runtime \<Rightarrow> upload_file \<Rightarrow> string \<Rightarrow> world \<Rightarrow> (exn + nat) \<times> world" where
  "save_upload env file p w =
     (case read_result file of
        Inl m \<Rightarrow> (Inl (Exception m), w)
      | Inr content \<Rightarrow>
          (case write_outcome env p content of
             Written \<Rightarrow>
               (Inr (length content), w\<lparr>fs := (fs w)(p \<mapsto> content), trace := trace w @ [Write p]\<rparr>)
           | OpenFailed m \<Rightarrow>
               (Inl (Exception m), w\<lparr>trace := trace w @ [Write p]\<rparr>)
           | WriteFailed m part \<Rightarrow>
               (Inl (Exception m), w\<lparr>fs := (fs w)(p \<mapsto> part), trace := trace w @ [Write p]\<rparr>)))"

text \<open>
  \<open>except HTTPException: raise\<close> and \<open>except Exception as e: logger.error(...); raise
  HTTPException(status_code=500, detail=f"<prefix>{str(e)}")\<close>.
\<close>

definition handle_errors ::
  "string \<Rightarrow> (exn + 'a) \<times> world \<Rightarrow> (exn + 'a) \<times> world" where
  "handle_errors prefix rw =
     (case rw of
        (Inl (HTTPException code detail), w) \<Rightarrow> (Inl (HTTPException code detail), w)
      | (Inl (Exception m), w) \<Rightarrow> (Inl (HTTPException 500 (prefix @ m)), logger ERROR w)
      | (Inr v, w) \<Rightarrow> (Inr v, w))"

text \<open>
  The \<open>finally\<close> block: \<open>if temp_input.exists(): try: temp_input.unlink() except
  Exception as e: logger.warning(...)\<close>. Only \<open>cut_audio\<close> logs the removal
  (\<open>verbose\<close>).
\<close>

definition cleanup :: "runtime \<Rightarrow> bool \<Rightarrow> string \<Rightarrow> world \<Rightarrow> world" where
  "cleanup env verbose p w =
     (if path_exists w p then
        (case unlink_error env p of
           None \<Rightarrow>
             (let w' = w\<lparr>fs := (fs w)(p := None), trace := trace w @ [Unlink p]\<rparr>
              in if verbose then logger INFO w' else w')
         | Some m \<Rightarrow> logger WARNING (w\<lparr>trace := trace w @ [Unlink p]\<rparr>))
      else w)"

definition output_missing_or_empty :: "world \<Rightarrow> string \<Rightarrow> bool" where
  "output_missing_or_empty w p = (\<not> path_exists w p \<or> st_size w p = 0)"

type_synonym response = "(string \<times> string) list"

subsection \<open>\<open>POST /cut\<close>\<close>

definition cut_command :: "runtime \<Rightarrow> string \<Rightarrow> pyfloat \<Rightarrow> pyfloat \<Rightarrow> string \<Rightarrow> string list" where
  "cut_command env temp_in start_time end_time output_path =
     [''ffmpeg'', ''-i'', temp_in,
      ''-ss'', float_str env start_time,
      ''-t'', float_str env (float_sub env end_time start_time),
      ''-acodec'', ''pcm_s16le'',
      ''-ar'', ''44100'',
      ''-ac'', ''2'',
      ''-y'', output_path]"

definition cut_try ::
  "runtime \<Rightarrow> upload_file \<Rightarrow> pyfloat \<Rightarrow> pyfloat \<Rightarrow> string \<Rightarrow> world \<Rightarrow> (exn + response) \<times> world" where
  "cut_try env file start_time end_time temp_in w =
     (case save_upload env file temp_in w of
        (Inl e, w1) \<Rightarrow> (Inl e, w1)
      | (Inr n, w1) \<Rightarrow>
          (let w2 = logger INFO w1;
               (u, w3) = uuid4 env w2;
               output_filename = ''cut_'' @ u @ ''.wav'';
               output_path = ''outputs/'' @ output_filename;
               (success, w4) =
                 run_ffmpeg_command env
                   (cut_command env temp_in start_time end_time output_path) 120 w3
           in if \<not> success then
                (Inl (HTTPException 500 ''Failed to cut audio. Please check the audio file format.''), w4)
              else if output_missing_or_empty w4 output_path then
                (Inl (HTTPException 500 ''Cut operation produced empty file''), w4)
              else (Inr [(''url'', ''/outputs/'' @ output_filename)], logger INFO w4)))"

definition cut_audio ::
  "runtime \<Rightarrow> upload_file \<Rightarrow> pyfloat \<Rightarrow> pyfloat \<Rightarrow> world \<Rightarrow> (exn + response) \<times> world" where
  "cut_audio env file start_time end_time w =
     (let (available, w1) = check_ffmpeg env (logger INFO w)
      in case available of
           Inl e \<Rightarrow> (Inl e, w1)
         | Inr ok \<Rightarrow>
             if \<not> ok then (Inl (HTTPException 500 ffmpeg_unavailable), w1)
             else if float_ge start_time end_time then
               (Inl (HTTPException 400 ''Start time must be less than end time''), w1)
             else if float_lt start_time (Fin 0) then
               (Inl (HTTPException 400 ''Start time cannot be negative''), w1)
             else
               (let (u, w2) = uuid4 env w1;
                    temp_in = temp_input env file u;
                    (r, w3) =
                      handle_errors ''Cut operation failed: ''
                        (cut_try env file start_time end_time temp_in w2)
                in (r, cleanup env True temp_in w3)))"

subsection \<open>\<open>POST /fade\<close>\<close>

definition fade_command :: "runtime \<Rightarrow> string \<Rightarrow> string \<Rightarrow> pyfloat \<Rightarrow> string \<Rightarrow> string list" where
  "fade_command env temp_in fade_type duration output_path =
     [''ffmpeg'', ''-i'', temp_in,
      ''-af'',
      (if fade_type = ''in'' then ''afade=t=in:d='' @ float_str env duration
       else ''afade=t=out:d='' @ float_str env duration),
      ''-acodec'', ''pcm_s16le'',
      ''-ar'', ''44100'',
      ''-ac'', ''2'',
      ''-y'', output_path]"

definition fade_try ::
  "runtime \<Rightarrow> upload_file \<Rightarrow> string \<Rightarrow> pyfloat \<Rightarrow> string \<Rightarrow> world \<Rightarrow> (exn + response) \<times> world" where
  "fade_try env file fade_type duration temp_in w =
     (case save_upload env file temp_in w of
        (Inl e, w1) \<Rightarrow> (Inl e, w1)
      | (Inr n, w1) \<Rightarrow>
          (let (u, w2) = uuid4 env w1;
               output_filename = ''fade_'' @ fade_type @ ''_'' @ u @ ''.wav'';
               output_path = ''outputs/'' @ output_filename;
               (success, w3) =
                 run_ffmpeg_command env
                   (fade_command env temp_in fade_type duration output_path) 120 w2
           in if \<not> success then
                (Inl (HTTPException 500 ''Failed to apply fade effect''), w3)
              else if output_missing_or_empty w3 output_path then
                (Inl (HTTPException 500 ''Fade operation produced empty file''), w3)
              else (Inr [(''url'', ''/outputs/'' @ output_filename)], logger INFO w3)))"

definition apply_fade ::
  "runtime \<Rightarrow> upload_file \<Rightarrow> string \<Rightarrow> pyfloat \<Rightarrow> world \<Rightarrow> (exn + response) \<times> world" where
  "apply_fade env file fade_type duration w =
     (let (available, w1) = check_ffmpeg env (logger INFO w)
      in case available of
           Inl e \<Rightarrow> (Inl e, w1)
         | Inr ok \<Rightarrow>
             if \<not> ok then (Inl (HTTPException 500 ffmpeg_unavailable), w1)
             else if fade_type \<notin> set [''in'', ''out''] then
               (Inl (HTTPException 400 (''Fade type must be 'in' or 'out'' @ [CHR 0x27])), w1)
             else if float_le duration (Fin 0) then
               (Inl (HTTPException 400 ''Fade duration must be positive''), w1)
             else
               (let (u, w2) = uuid4 env w1;
                    temp_in = temp_input env file u;
                    (r, w3) =
                      handle_errors ''Fade operation failed: ''
                        (fade_try env file fade_type duration temp_in w2)
                in (r, cleanup env False temp_in w3)))"

subsection \<open>\<open>POST /separate/vocal-music\<close>\<close>

definition vocal_command :: "string \<Rightarrow> string \<Rightarrow> string list" where
  "vocal_command temp_in vocal_path =
     [''ffmpeg'', ''-i'', temp_in,
      ''-af'', ''pan=mono|c0=0.5*c0+-0.5*c1'',
      ''-acodec'', ''pcm_s16le'',
      ''-ar'', ''44100'',
      ''-y'', vocal_path]"

definition music_command :: "string \<Rightarrow> string \<Rightarrow> string list" where
  "music_command temp_in music_path =
     [''ffmpeg'', ''-i'', temp_in,
      ''-af'', ''pan=stereo|c0=c0|c1=c1'',
      ''-acodec'', ''pcm_s16le'',
      ''-ar'', ''44100'',
      ''-ac'', ''2'',
      ''-y'', music_path]"

definition separate_vocal_music_try ::
  "runtime \<Rightarrow> upload_file \<Rightarrow> string \<Rightarrow> world \<Rightarrow> (exn + response) \<times> world" where
  "separate_vocal_music_try env file temp_in w =
     (case save_upload env file temp_in w of
        (Inl e, w1) \<Rightarrow> (Inl e, w1)
      | (Inr n, w1) \<Rightarrow>
          (let (u1, w2) = uuid4 env w1;
               vocal_filename = ''vocal_'' @ u1 @ ''.wav'';
               vocal_path = ''outputs/'' @ vocal_filename;
               (u2, w3) = uuid4 env w2;
               music_filename = ''music_'' @ u2 @ ''.wav'';
               music_path = ''outputs/'' @ music_filename;
               (vocal_success, w4) =
                 run_ffmpeg_command env (vocal_command temp_in vocal_path) 180 w3;
               (music_success, w5) =
                 run_ffmpeg_command env (music_command temp_in music_path) 180 w4
           in if \<not> (vocal_success \<and> music_success) then
                (Inl (HTTPException 500 ''Failed to separate audio tracks''), w5)
              else if \<not> path_exists w5 vocal_path \<or> \<not> path_exists w5 music_path then
                (Inl (HTTPException 500 ''Separation produced empty files''), w5)
              else
                (Inr [(''vocal'', ''/outputs/'' @ vocal_filename),
                      (''music'', ''/outputs/'' @ music_filename)], logger INFO w5)))"

definition separate_vocal_music ::
  "runtime \<Rightarrow> upload_file \<Rightarrow> world \<Rightarrow> (exn + response) \<times> world" where
  "separate_vocal_music env file w =
     (let (available, w1) = check_ffmpeg env (logger INFO w)
      in case available of
           Inl e \<Rightarrow> (Inl e, w1)
         | Inr ok \<Rightarrow>
             if \<not> ok then (Inl (HTTPException 500 ffmpeg_unavailable), w1)
             else
               (let (u, w2) = uuid4 env w1;
                    temp_in = temp_input env file u;
                    (r, w3) =
                      handle_errors ''Separation failed: ''
                        (separate_vocal_music_try env file temp_in w2)
                in (r, cleanup env False temp_in w3)))"

subsection \<open>\<open>POST /separate/instruments\<close>\<close>

definition band_command :: "string \<Rightarrow> string \<Rightarrow> string \<Rightarrow> string list" where
  "band_command temp_in band_filter output_path =
     [''ffmpeg'', ''-i'', temp_in,
      ''-af'', band_filter,
      ''-acodec'', ''pcm_s16le'',
      ''-ar'', ''44100'',
      ''-ac'', ''2'',
      ''-y'', output_path]"

text \<open>The list \<open>commands\<close>: the four commands, each with the name of its band.\<close>

definition commands :: "string \<Rightarrow> string \<Rightarrow> string \<Rightarrow> string \<Rightarrow> string \<Rightarrow> (string list \<times> string) list" where
  "commands temp_in vocals_path drums_path bass_path other_path =
     [(band_command temp_in ''highpass=f=200,lowpass=f=3000'' vocals_path, ''vocals''),
      (band_command temp_in ''highpass=f=1000'' drums_path, ''drums''),
      (band_command temp_in ''lowpass=f=250'' bass_path, ''bass''),
      (band_command temp_in ''highpass=f=250,lowpass=f=1000'' other_path, ''other'')]"

text \<open>
  The loop \<open>for cmd, name in commands\<close>: it runs every command and counts the ones for
  which \<open>run_ffmpeg_command\<close> returns true.
\<close>

fun run_commands ::
  "runtime \<Rightarrow> (string list \<times> string) list \<Rightarrow> nat \<Rightarrow> world \<Rightarrow> nat \<times> world" where
  "run_commands env [] success_count w = (success_count, w)"
| "run_commands env ((cmd, name) # rest) success_count w =
     (let (ok, w1) = run_ffmpeg_command env cmd 180 w
      in if ok then run_commands env rest (success_count + 1) (logger INFO w1)
         else run_commands env rest success_count (logger ERROR w1))"

definition separate_instruments_try ::
  "runtime \<Rightarrow> upload_file \<Rightarrow> string \<Rightarrow> world \<Rightarrow> (exn + response) \<times> world" where
  "separate_instruments_try env file temp_in w =
     (case save_upload env file temp_in w of
        (Inl e, w1) \<Rightarrow> (Inl e, w1)
      | (Inr n, w1) \<Rightarrow>
          (let (u1, w2) = uuid4 env w1;
               vocals_filename = ''vocals_'' @ u1 @ ''.wav'';
               (u2, w3) = uuid4 env w2;
               drums_filename = ''drums_'' @ u2 @ ''.wav'';
               (u3, w4) = uuid4 env w3;
               bass_filename = ''bass_'' @ u3 @ ''.wav'';
               (u4, w5) = uuid4 env w4;
               other_filename = ''other_'' @ u4 @ ''.wav'';
               (success_count, w6) =
                 run_commands env
                   (commands temp_in
                      (''outputs/'' @ vocals_filename) (''outputs/'' @ drums_filename)
                      (''outputs/'' @ bass_filename) (''outputs/'' @ other_filename))
                   0 w5
           in if success_count < 4 then
                (Inl (HTTPException 500 ''Failed to separate some instruments''), w6)
              else
                (Inr [(''vocals'', ''/outputs/'' @ vocals_filename),
                      (''drums'', ''/outputs/'' @ drums_filename),
                      (''bass'', ''/outputs/'' @ bass_filename),
                      (''other'', ''/outputs/'' @ other_filename)], logger INFO w6)))"

definition separate_instruments ::
  "runtime \<Rightarrow> upload_file \<Rightarrow> world \<Rightarrow> (exn + response) \<times> world" where
  "separate_instruments env file w =
     (let (available, w1) = check_ffmpeg env (logger INFO w)
      in case available of
           Inl e \<Rightarrow> (Inl e, w1)
         | Inr ok \<Rightarrow>
             if \<not> ok then (Inl (HTTPException 500 ffmpeg_unavailable), w1)
             else
               (let (u, w2) = uuid4 env w1;
                    temp_in = temp_input env file u;
                    (r, w3) =
                      handle_errors ''Instrument separation failed: ''
                        (separate_instruments_try env file temp_in w2)
                in (r, cleanup env False temp_in w3)))"

subsection \<open>\<open>POST /export/mix\<close> and \<open>POST /export/track\<close>\<close>

text \<open>
  \<open>track.url.replace("/uploads/", "uploads/").replace("/outputs/", "outputs/")\<close>.
\<close>

definition resolve_track_url :: "string \<Rightarrow> string" where
  "resolve_track_url u =
     str_replace ''/outputs/'' ''outputs/'' (str_replace ''/uploads/'' ''uploads/'' u)"

definition active_tracks :: "track_data list \<Rightarrow> track_data list" where
  "active_tracks ts =
     (let solo_tracks = filter solo ts
      in if solo_tracks \<noteq> [] then solo_tracks else filter (\<lambda>t. \<not> muted t) ts)"

text \<open>
  The output of an export is \<open>OUTPUT_DIR / output_filename\<close>, and the name holds the
  format string of the client, so \<open>pathlib\<close> has a say. A \<open>PurePosixPath\<close> is a root
  (nothing, \<open>/\<close>, or \<open>//\<close> for exactly two leading slashes) and the parts between the
  slashes, without the empty parts and the parts \<open>.\<close>; \<open>..\<close> stays. Its \<open>str\<close> is the
  root and the parts joined by slashes, and \<open>.\<close> when there is neither. In a join, an
  operand with a root drops what stands before it.
\<close>

fun split_on :: "char \<Rightarrow> string \<Rightarrow> string list" where
  "split_on sep [] = [[]]"
| "split_on sep (c # cs) =
     (if c = sep then [] # split_on sep cs
      else (case split_on sep cs of
              [] \<Rightarrow> [[c]]
            | part # parts \<Rightarrow> (c # part) # parts))"

definition path_parts :: "string \<Rightarrow> string list" where
  "path_parts s = filter (\<lambda>part. part \<noteq> [] \<and> part \<noteq> ''.'') (split_on (CHR ''/'') s)"

definition path_root :: "string \<Rightarrow> string" where
  "path_root s =
     (if take 1 s \<noteq> ''/'' then []
      else if take 2 s = ''//'' \<and> take 3 s \<noteq> ''///'' then ''//''
      else ''/'')"

fun join_parts :: "string list \<Rightarrow> string" where
  "join_parts [] = []"
| "join_parts [part] = part"
| "join_parts (part # next_part # parts) = part @ ''/'' @ join_parts (next_part # parts)"

definition format_parsed :: "string \<Rightarrow> string list \<Rightarrow> string" where
  "format_parsed anchor parts =
     (if anchor \<noteq> [] then anchor @ join_parts parts
      else if parts = [] then ''.''
      else join_parts parts)"

text \<open>\<open>str(Path(s))\<close> and \<open>str(Path(d) / name)\<close>.\<close>

definition path_str :: "string \<Rightarrow> string" where
  "path_str s = format_parsed (path_root s) (path_parts s)"

definition path_div :: "string \<Rightarrow> string \<Rightarrow> string" where
  "path_div d name =
     (if path_root name \<noteq> [] then path_str name
      else format_parsed (path_root d) (path_parts d @ path_parts name))"

text \<open>
  \<open>Path.exists()\<close> and \<open>Path.stat()\<close> in an export: both call \<open>os.stat\<close>, and
  \<open>exists\<close> swallows only the errors that say that the path is not there; every other
  \<open>OSError\<close> goes on to the \<open>except Exception\<close> clause of the handler.
\<close>

definition exists_or_raise :: "runtime \<Rightarrow> world \<Rightarrow> string \<Rightarrow> exn + bool" where
  "exists_or_raise env w p =
     (case stat_error env p of
        Some m \<Rightarrow> Inl (Exception m)
      | None \<Rightarrow> Inr (path_exists w p))"

text \<open>\<open>not output_path.exists() or output_path.stat().st_size == 0\<close>.\<close>

definition output_check :: "runtime \<Rightarrow> world \<Rightarrow> string \<Rightarrow> exn + bool" where
  "output_check env w p =
     (case stat_error env p of
        Some m \<Rightarrow> Inl (Exception m)
      | None \<Rightarrow> Inr (output_missing_or_empty w p))"

definition export_command ::
  "runtime \<Rightarrow> string \<Rightarrow> track_data \<Rightarrow> string \<Rightarrow> string \<Rightarrow> string \<Rightarrow> string list" where
  "export_command env track_path t format_type qual output_path =
     [''ffmpeg'', ''-i'', track_path, ''-af'', ''volume='' @ float_str env (volume t)]
     @ get_quality_settings format_type qual
     @ [''-y'', output_path]"

definition export_mix_try ::
  "runtime \<Rightarrow> export_mix_request \<Rightarrow> world \<Rightarrow> (exn + response) \<times> world" where
  "export_mix_try env request w =
     (case active_tracks (tracks request) of
        [] \<Rightarrow> (Inl (HTTPException 400 ''No active tracks to export''), w)
      | t # others \<Rightarrow>
          (let (u, w1) = uuid4 env w;
               output_filename = ''mix_'' @ u @ ''.'' @ format request;
               output_path = path_div ''outputs'' output_filename;
               track_path = resolve_track_url (url t)
           in case exists_or_raise env w1 (path_str track_path) of
                Inl e \<Rightarrow> (Inl e, w1)
              | Inr found \<Rightarrow>
                  if \<not> found then
                    (Inl (HTTPException 404 ''Source track file not found''), w1)
                  else
                    (let (success, w2) =
                           run_ffmpeg_command env
                             (export_command env track_path t (format request)
                                (quality request) output_path) 180 w1
                     in if \<not> success then
                          (Inl (HTTPException 500 ''Failed to export mix''), w2)
                        else
                          (case output_check env w2 output_path of
                             Inl e \<Rightarrow> (Inl e, w2)
                           | Inr missing_or_empty \<Rightarrow>
                               if missing_or_empty then
                                 (Inl (HTTPException 500 ''Export produced empty file''), w2)
                               else
                                 (Inr [(''url'', ''/outputs/'' @ output_filename)],
                                  logger INFO w2)))))"

definition export_mix ::
  "runtime \<Rightarrow> export_mix_request \<Rightarrow> world \<Rightarrow> (exn + response) \<times> world" where
  "export_mix env request w =
     (let (available, w1) = check_ffmpeg env (logger INFO w)
      in case available of
           Inl e \<Rightarrow> (Inl e, w1)
         | Inr ok \<Rightarrow>
             if \<not> ok then (Inl (HTTPException 500 ffmpeg_unavailable), w1)
             else handle_errors ''Export failed: '' (export_mix_try env request w1))"

definition export_track_try ::
  "runtime \<Rightarrow> export_track_request \<Rightarrow> world \<Rightarrow> (exn + response) \<times> world" where
  "export_track_try env request w =
     (let t = track request;
          track_path = resolve_track_url (url t)
      in case exists_or_raise env w (path_str track_path) of
           Inl e \<Rightarrow> (Inl e, w)
         | Inr found \<Rightarrow>
             if \<not> found then
               (Inl (HTTPException 404 ''Source track file not found''), w)
             else
               (let (u, w1) = uuid4 env w;
                    output_filename = ''track_'' @ u @ ''.'' @ track_format request;
                    output_path = path_div ''outputs'' output_filename;
                    (success, w2) =
                      run_ffmpeg_command env
                        (export_command env track_path t (track_format request)
                           (track_quality request) output_path) 180 w1
                in if \<not> success then
                     (Inl (HTTPException 500 ''Failed to export track''), w2)
                   else
                     (case output_check env w2 output_path of
                        Inl e \<Rightarrow> (Inl e, w2)
                      | Inr missing_or_empty \<Rightarrow>
                          if missing_or_empty then
                            (Inl (HTTPException 500 ''Export produced empty file''), w2)
                          else
                            (Inr [(''url'', ''/outputs/'' @ output_filename)],
                             logger INFO w2))))"

definition export_track ::
  "runtime \<Rightarrow> export_track_request \<Rightarrow> world \<Rightarrow> (exn + response) \<times> world" where
  "export_track env request w =
     (let (available, w1) = check_ffmpeg env (logger INFO w)
      in case available of
           Inl e \<Rightarrow> (Inl e, w1)
         | Inr ok \<Rightarrow>
             if \<not> ok then (Inl (HTTPException 500 ffmpeg_unavailable), w1)
             else handle_errors ''Track export failed: '' (export_track_try env request w1))"

subsection \<open>The legs of the 4-band split, observed\<close>




subsection \<open>The release of a scratch input\<close>


subsection \<open>The resolution of a track URL as the specification words it\<close>

text \<open>
  The specification's reading of the resolution, to compare with \<open>resolve_track_url\<close>:
  the URL starts with one of the two mount prefixes, the local directory takes the place of
  that prefix and the rest of the URL stays.
\<close>

definition starts_with :: "string \<Rightarrow> string \<Rightarrow> bool" where
  "starts_with p s = (take (length p) s = p)"

definition resolve_by_prefix :: "string \<Rightarrow> string" where
  "resolve_by_prefix u =
     (if starts_with ''/uploads/'' u then ''uploads/'' @ drop (length ''/uploads/'') u
      else if starts_with ''/outputs/'' u then ''outputs/'' @ drop (length ''/outputs/'') u
      else u)"

subsection \<open>Concrete runtimes, worlds and requests\<close>

text \<open>
  \<open>demo_env\<close> is a machine on which everything works: the probe exits with 0, every
  other command exits with 0 after writing four bytes to its last argument, files are
  written and unlinked without error. The other runtimes differ from it in one field.
\<close>

definition demo_env :: runtime where
  "demo_env =
     \<lparr>uuid_str = (\<lambda>n. replicate (Suc n) (CHR ''u'')),
      path_suffix = (\<lambda>name. ''.mp3''),
      float_str = (\<lambda>x. (case x of Fin r \<Rightarrow> if r = 1 then ''1.0'' else ''0.5'' | _ \<Rightarrow> ''nan'')),
      float_sub = (\<lambda>a b. (case (a, b) of (Fin x, Fin y) \<Rightarrow> Fin (x - y) | _ \<Rightarrow> NaN)),
      run_proc = (\<lambda>command timeout files.
        if command = [''ffmpeg'', ''-version''] then (Exited 0 [], files)
        else (Exited 0 [], files(last command \<mapsto> ''RIFF''))),
      write_outcome = (\<lambda>p content. Written),
      unlink_error = (\<lambda>p. None),
      stat_error = (\<lambda>p. None)\<rparr>"

text \<open>No \<open>ffmpeg\<close> on the machine: every \<open>subprocess.run\<close> raises \<open>FileNotFoundError\<close>.\<close>

definition no_ffmpeg_env :: runtime where
  "no_ffmpeg_env =
     demo_env\<lparr>run_proc := (\<lambda>command timeout files. (FileNotFoundError ''ffmpeg'', files))\<rparr>"

text \<open>An \<open>ffmpeg\<close> that exits with 0 and writes no file.\<close>

definition silent_env :: runtime where
  "silent_env = demo_env\<lparr>run_proc := (\<lambda>command timeout files. (Exited 0 [], files))\<rparr>"

text \<open>An \<open>ffmpeg\<close> that exits with 0 and leaves an output of zero bytes.\<close>

definition hollow_env :: runtime where
  "hollow_env =
     demo_env\<lparr>run_proc := (\<lambda>command timeout files.
       if command = [''ffmpeg'', ''-version''] then (Exited 0 [], files)
       else (Exited 0 [], files(last command \<mapsto> [])))\<rparr>"


definition empty_world :: world where
  "empty_world = \<lparr>fs = Map.empty, trace = [], log = [], uuids = 0\<rparr>"

definition demo_file :: upload_file where
  "demo_file = \<lparr>filename = Some ''song.mp3'', read_result = Inr ''abc''\<rparr>"

definition demo_track :: track_data where
  "demo_track =
     \<lparr>track_id = ''t1'', url = ''/uploads/song.mp3'', volume = Fin 1,
      muted = False, solo = False\<rparr>"

definition demo_mix_request :: export_mix_request where
  "demo_mix_request = \<lparr>tracks = [demo_track], format = ''mp3'', quality = ''high''\<rparr>"

definition demo_track_request :: export_track_request where
  "demo_track_request =
     \<lparr>track = demo_track, track_format = ''mp3'', track_quality = ''high''\<rparr>"

text \<open>The world after the probe of a request that started in the empty world.\<close>

definition probed_world :: world where
  "probed_world =
     \<lparr>fs = Map.empty, trace = [Spawn [''ffmpeg'', ''-version''] 10], log = [INFO], uuids = 0\<rparr>"

definition solo_track :: track_data where
  "solo_track =
     \<lparr>track_id = ''t2'', url = ''/uploads/solo.wav'', volume = Fin (1 / 2),
      muted = False, solo = True\<rparr>"

definition muted_track :: track_data where
  "muted_track =
     \<lparr>track_id = ''t3'', url = ''/uploads/muted.wav'', volume = Fin 1,
      muted = True, solo = False\<rparr>"

text \<open>The two track lists of the specification's example, and a request with no active track.\<close>

definition solo_mix_request :: export_mix_request where
  "solo_mix_request =
     \<lparr>tracks = [demo_track, solo_track, muted_track], format = ''mp3'', quality = ''high''\<rparr>"

definition plain_mix_request :: export_mix_request where
  "plain_mix_request =
     \<lparr>tracks = [demo_track, muted_track], format = ''mp3'', quality = ''high''\<rparr>"

definition muted_mix_request :: export_mix_request where
  "muted_mix_request = \<lparr>tracks = [muted_track], format = ''mp3'', quality = ''high''\<rparr>"

text \<open>A world with the two uploads on disk, and that world after the probe.\<close>

definition stocked_world :: world where
  "stocked_world =
     \<lparr>fs = [''uploads/song.mp3'' \<mapsto> ''abc'', ''uploads/solo.wav'' \<mapsto> ''defg''],
      trace = [], log = [], uuids = 0\<rparr>"

definition probed_stocked_world :: world where
  "probed_stocked_world =
     \<lparr>fs = [''uploads/song.mp3'' \<mapsto> ''abc'', ''uploads/solo.wav'' \<mapsto> ''defg''],
      trace = [Spawn [''ffmpeg'', ''-version''] 10], log = [INFO], uuids = 0\<rparr>"

text \<open>Two export requests with a format that is neither \<open>mp3\<close> nor \<open>wav\<close>.\<close>

definition flac_mix_request :: export_mix_request where
  "flac_mix_request = \<lparr>tracks = [demo_track], format = ''flac'', quality = ''high''\<rparr>"

definition flac_track_request :: export_track_request where
  "flac_track_request =
     \<lparr>track = demo_track, track_format = ''flac'', track_quality = ''high''\<rparr>"




text \<open>
  An \<open>ffmpeg\<close> that is on the path and may not be executed: every \<open>subprocess.run\<close>
  raises \<open>PermissionError\<close>, which is neither \<open>FileNotFoundError\<close> nor
  \<open>TimeoutExpired\<close>.
\<close>

definition locked_ffmpeg_env :: runtime where
  "locked_ffmpeg_env =
     demo_env\<lparr>run_proc := (\<lambda>command timeout files.
       (OtherError ''[Errno 13] Permission denied'', files))\<rparr>"

text \<open>Two export requests whose format ends with a part that \<open>pathlib\<close> drops.\<close>

definition slash_mix_request :: export_mix_request where
  "slash_mix_request = \<lparr>tracks = [demo_track], format = ''mp3/.'', quality = ''high''\<rparr>"

definition slash_track_request :: export_track_request where
  "slash_track_request =
     \<lparr>track = demo_track, track_format = ''mp3/.'', track_quality = ''high''\<rparr>"

section \<open>Properties\<close>

subsection \<open>The quality settings\<close>

text \<open>
  C8. The quality-settings function maps (mp3, high) to the bitrate 320k, (mp3, medium) to
  192k, (mp3, low) to 128k, (mp3, any other tier) to the default 192k, and (wav, any tier)
  to 16-bit signed PCM, whatever the tier.
\<close>

theorem quality_settings_table:
  "get_quality_settings ''mp3'' ''high'' = [''-b:a'', ''320k''] \<and>
   get_quality_settings ''mp3'' ''medium'' = [''-b:a'', ''192k''] \<and>
   get_quality_settings ''mp3'' ''low'' = [''-b:a'', ''128k''] \<and>
   (\<forall>q. q \<notin> {''high'', ''medium'', ''low''} \<longrightarrow>
        get_quality_settings ''mp3'' q = [''-b:a'', ''192k'']) \<and>
   (\<forall>q. get_quality_settings ''wav'' q = [''-acodec'', ''pcm_s16le''])"
  by (simp add: get_quality_settings_def quality_map_def)

theorem quality_settings_table_witness:
  "''ultra'' \<notin> {''high'', ''medium'', ''low''} \<and>
   get_quality_settings ''mp3'' ''ultra'' = [''-b:a'', ''192k''] \<and>
   get_quality_settings ''wav'' ''ultra'' = [''-acodec'', ''pcm_s16le'']"
proof -
  have other: "''ultra'' \<notin> {''high'', ''medium'', ''low''}"
    by simp
  note table = quality_settings_table [THEN conjunct2, THEN conjunct2, THEN conjunct2]
  have mp3: "get_quality_settings ''mp3'' ''ultra'' = [''-b:a'', ''192k'']"
    using table [THEN conjunct1, rule_format, OF other] .
  have wav: "get_quality_settings ''wav'' ''ultra'' = [''-acodec'', ''pcm_s16le'']"
    using table [THEN conjunct2, rule_format] .
  from other mp3 wav show ?thesis
    by (intro conjI)
qed

subsection \<open>The helpers: the probe and the invoker\<close>

lemma check_ffmpeg_world:
  "snd (check_ffmpeg env w) =
     w\<lparr>fs := snd (run_proc env [''ffmpeg'', ''-version''] 10 (fs w)),
       trace := trace w @ [Spawn [''ffmpeg'', ''-version''] 10]\<rparr>"
  by (simp add: check_ffmpeg_def subprocess_run_def split_beta)

lemma run_ffmpeg_command_result:
  "fst (run_ffmpeg_command env command timeout w) =
     (\<exists>err. fst (run_proc env command timeout (fs w)) = Exited 0 err)"
  by (cases "fst (run_proc env command timeout (fs w))")
     (simp_all add: run_ffmpeg_command_def subprocess_run_def logger_def split_beta)

lemma run_ffmpeg_command_trace:
  "trace (snd (run_ffmpeg_command env command timeout w)) = trace w @ [Spawn command timeout]"
  by (cases "fst (run_proc env command timeout (fs w))")
     (simp_all add: run_ffmpeg_command_def subprocess_run_def logger_def split_beta)


lemma run_ffmpeg_command_uuids:
  "uuids (snd (run_ffmpeg_command env command timeout w)) = uuids w"
  by (cases "fst (run_proc env command timeout (fs w))")
     (simp_all add: run_ffmpeg_command_def subprocess_run_def logger_def split_beta)

text \<open>
  C7. For every argument list and timeout, \<open>run_ffmpeg_command\<close> returns a boolean and
  never raises: the model's function is total into \<open>bool\<close>, every \<open>except\<close> clause of
  the source being a branch that returns false. It returns true if and only if the child
  exits with status 0 within the timeout; it returns false on another exit status, on the
  timeout and on every other exception of \<open>subprocess.run\<close>. It spawns the one process
  it was given.
\<close>

theorem run_ffmpeg_command_true_iff_exit_0:
  "(fst (run_ffmpeg_command env command timeout w) \<longleftrightarrow>
      (\<exists>err. fst (run_proc env command timeout (fs w)) = Exited 0 err)) \<and>
   (\<forall>returncode err. fst (run_proc env command timeout (fs w)) = Exited returncode err \<longrightarrow>
      returncode \<noteq> 0 \<longrightarrow> \<not> fst (run_ffmpeg_command env command timeout w)) \<and>
   (fst (run_proc env command timeout (fs w)) = TimeoutExpired \<longrightarrow>
      \<not> fst (run_ffmpeg_command env command timeout w)) \<and>
   (\<forall>m. fst (run_proc env command timeout (fs w)) = FileNotFoundError m \<longrightarrow>
      \<not> fst (run_ffmpeg_command env command timeout w)) \<and>
   (\<forall>m. fst (run_proc env command timeout (fs w)) = OtherError m \<longrightarrow>
      \<not> fst (run_ffmpeg_command env command timeout w)) \<and>
   trace (snd (run_ffmpeg_command env command timeout w)) = trace w @ [Spawn command timeout]"
  by (simp add: run_ffmpeg_command_result run_ffmpeg_command_trace)

theorem run_ffmpeg_command_true_iff_exit_0_witness:
  "fst (run_proc no_ffmpeg_env [''ffmpeg'', ''-i'', ''a.wav''] 60 (fs empty_world)) =
     FileNotFoundError ''ffmpeg'' \<and>
   \<not> fst (run_ffmpeg_command no_ffmpeg_env [''ffmpeg'', ''-i'', ''a.wav''] 60 empty_world) \<and>
   fst (run_proc demo_env [''ffmpeg'', ''-i'', ''a.wav''] 60 (fs empty_world)) = Exited 0 [] \<and>
   fst (run_ffmpeg_command demo_env [''ffmpeg'', ''-i'', ''a.wav''] 60 empty_world)"
proof -
  have missing:
    "fst (run_proc no_ffmpeg_env [''ffmpeg'', ''-i'', ''a.wav''] 60 (fs empty_world)) =
       FileNotFoundError ''ffmpeg''"
    by (simp add: no_ffmpeg_env_def demo_env_def)
  have exits:
    "fst (run_proc demo_env [''ffmpeg'', ''-i'', ''a.wav''] 60 (fs empty_world)) = Exited 0 []"
    by (simp add: demo_env_def)
  note invoker = run_ffmpeg_command_true_iff_exit_0 [THEN conjunct2, THEN conjunct2, THEN conjunct2]
  have no: "\<not> fst (run_ffmpeg_command no_ffmpeg_env [''ffmpeg'', ''-i'', ''a.wav''] 60 empty_world)"
    using invoker [THEN conjunct1, rule_format, OF missing] .
  have yes: "fst (run_ffmpeg_command demo_env [''ffmpeg'', ''-i'', ''a.wav''] 60 empty_world)"
    using run_ffmpeg_command_true_iff_exit_0 [THEN conjunct1, THEN iffD2, OF exI, OF exits] .
  from missing no exits yes show ?thesis
    by (intro conjI)
qed

subsection \<open>The engine gate\<close>

text \<open>
  When \<open>check_ffmpeg\<close> returns false (the probe exits with another status than 0, runs
  into its timeout or finds no \<open>ffmpeg\<close>), every transformation endpoint answers with
  the engine-unavailable server error, HTTP 500 with the detail \<open>ffmpeg_unavailable\<close>,
  before any file system write for the request: the world it leaves is the world after the
  probe, whose trace has gained the probe process and no write, and whose files are the
  ones the probe process left.
\<close>

lemma engine_unavailable_fails_fast:
  assumes "check_ffmpeg env (logger INFO w) = (Inr False, w1)"
  shows "cut_audio env file start_time end_time w =
           (Inl (HTTPException 500 ffmpeg_unavailable), w1) \<and>
         apply_fade env file fade_type duration w =
           (Inl (HTTPException 500 ffmpeg_unavailable), w1) \<and>
         separate_vocal_music env file w = (Inl (HTTPException 500 ffmpeg_unavailable), w1) \<and>
         separate_instruments env file w = (Inl (HTTPException 500 ffmpeg_unavailable), w1) \<and>
         export_mix env mix_request w = (Inl (HTTPException 500 ffmpeg_unavailable), w1) \<and>
         export_track env track_request w = (Inl (HTTPException 500 ffmpeg_unavailable), w1) \<and>
         trace w1 = trace w @ [Spawn [''ffmpeg'', ''-version''] 10] \<and>
         fs w1 = snd (run_proc env [''ffmpeg'', ''-version''] 10 (fs w))"
proof -
  have "w1 = snd (check_ffmpeg env (logger INFO w))"
    using assms by simp
  then have w1: "trace w1 = trace w @ [Spawn [''ffmpeg'', ''-version''] 10]"
    "fs w1 = snd (run_proc env [''ffmpeg'', ''-version''] 10 (fs w))"
    by (simp_all add: check_ffmpeg_world logger_def)
  show ?thesis
    using assms w1
    by (simp add: cut_audio_def apply_fade_def separate_vocal_music_def
        separate_instruments_def export_mix_def export_track_def)
qed

lemma engine_unavailable_fails_fast_example:
  "check_ffmpeg no_ffmpeg_env (logger INFO empty_world) = (Inr False, probed_world) \<and>
   cut_audio no_ffmpeg_env demo_file (Fin 1) (Fin 2) empty_world =
     (Inl (HTTPException 500 ffmpeg_unavailable), probed_world) \<and>
   apply_fade no_ffmpeg_env demo_file ''in'' (Fin 1) empty_world =
     (Inl (HTTPException 500 ffmpeg_unavailable), probed_world) \<and>
   separate_vocal_music no_ffmpeg_env demo_file empty_world =
     (Inl (HTTPException 500 ffmpeg_unavailable), probed_world) \<and>
   separate_instruments no_ffmpeg_env demo_file empty_world =
     (Inl (HTTPException 500 ffmpeg_unavailable), probed_world) \<and>
   export_mix no_ffmpeg_env demo_mix_request empty_world =
     (Inl (HTTPException 500 ffmpeg_unavailable), probed_world) \<and>
   export_track no_ffmpeg_env demo_track_request empty_world =
     (Inl (HTTPException 500 ffmpeg_unavailable), probed_world) \<and>
   trace probed_world = trace empty_world @ [Spawn [''ffmpeg'', ''-version''] 10] \<and>
   fs probed_world = snd (run_proc no_ffmpeg_env [''ffmpeg'', ''-version''] 10 (fs empty_world))"
proof -
  have probe: "check_ffmpeg no_ffmpeg_env (logger INFO empty_world) = (Inr False, probed_world)"
    by (simp add: check_ffmpeg_def subprocess_run_def logger_def no_ffmpeg_env_def demo_env_def
        empty_world_def probed_world_def)
  from probe engine_unavailable_fails_fast [OF probe] show ?thesis
    by (rule conjI)
qed

subsection \<open>The validation of a cut\<close>

text \<open>
  C4, as the code has it. For every cut request in which \<open>start_time >= end_time\<close> or
  \<open>start_time < 0\<close>, the handler writes no file and starts no transformation: the only
  process of the request is the availability probe \<open>ffmpeg -version\<close>, which runs before
  the validation. The request is rejected with HTTP 400 when that probe succeeds; when the
  probe fails the answer is the engine-unavailable error of C9, and an exception of the
  probe goes through.
\<close>

theorem cut_invalid_range_rejected:
  assumes "float_ge start_time end_time \<or> float_lt start_time (Fin 0)"
  shows "(case fst (check_ffmpeg env (logger INFO w)) of
            Inr True \<Rightarrow>
              \<exists>detail. fst (cut_audio env file start_time end_time w) =
                Inl (HTTPException 400 detail)
          | Inr False \<Rightarrow>
              fst (cut_audio env file start_time end_time w) =
                Inl (HTTPException 500 ffmpeg_unavailable)
          | Inl e \<Rightarrow> fst (cut_audio env file start_time end_time w) = Inl e) \<and>
         trace (snd (cut_audio env file start_time end_time w)) =
           trace w @ [Spawn [''ffmpeg'', ''-version''] 10] \<and>
         fs (snd (cut_audio env file start_time end_time w)) =
           snd (run_proc env [''ffmpeg'', ''-version''] 10 (fs w))"
proof -
  obtain a w1 where p: "check_ffmpeg env (logger INFO w) = (a, w1)"
    by (cases "check_ffmpeg env (logger INFO w)")
  then have "w1 = snd (check_ffmpeg env (logger INFO w))"
    by simp
  then have w1: "trace w1 = trace w @ [Spawn [''ffmpeg'', ''-version''] 10]"
    "fs w1 = snd (run_proc env [''ffmpeg'', ''-version''] 10 (fs w))"
    by (simp_all add: check_ffmpeg_world logger_def)
  show ?thesis
    using assms p w1 by (auto simp: cut_audio_def split: sum.splits)
qed

theorem cut_invalid_range_rejected_witness:
  "float_ge (Fin 5) (Fin 3) \<and>
   (case fst (check_ffmpeg demo_env (logger INFO empty_world)) of
      Inr True \<Rightarrow>
        \<exists>detail. fst (cut_audio demo_env demo_file (Fin 5) (Fin 3) empty_world) =
          Inl (HTTPException 400 detail)
    | Inr False \<Rightarrow>
        fst (cut_audio demo_env demo_file (Fin 5) (Fin 3) empty_world) =
          Inl (HTTPException 500 ffmpeg_unavailable)
    | Inl e \<Rightarrow> fst (cut_audio demo_env demo_file (Fin 5) (Fin 3) empty_world) = Inl e) \<and>
   trace (snd (cut_audio demo_env demo_file (Fin 5) (Fin 3) empty_world)) =
     trace empty_world @ [Spawn [''ffmpeg'', ''-version''] 10] \<and>
   fs (snd (cut_audio demo_env demo_file (Fin 5) (Fin 3) empty_world)) =
     snd (run_proc demo_env [''ffmpeg'', ''-version''] 10 (fs empty_world))"
proof -
  have late: "float_ge (Fin 5) (Fin 3)"
    by (simp add: float_ge_def float_le_def float_eq_def)
  then have invalid: "float_ge (Fin 5) (Fin 3) \<or> float_lt (Fin 5) (Fin 0)"
    by (rule disjI1)
  from late cut_invalid_range_rejected [OF invalid] show ?thesis
    by (rule conjI)
qed

text \<open>
  C4 as stated fails: a cut request with \<open>start_time = 5\<close> and \<open>end_time = 3\<close> on a
  machine with a working \<open>ffmpeg\<close> is rejected with HTTP 400, and a process was spawned
  for it all the same (the probe).
\<close>

theorem cut_invalid_range_spawns_probe:
  "float_ge (Fin 5) (Fin 3) \<and>
   cut_audio demo_env demo_file (Fin 5) (Fin 3) empty_world =
     (Inl (HTTPException 400 ''Start time must be less than end time''), probed_world) \<and>
   trace probed_world = [Spawn [''ffmpeg'', ''-version''] 10] \<and>
   trace probed_world \<noteq> []"
  by (simp add: cut_audio_def check_ffmpeg_def subprocess_run_def logger_def demo_env_def
      empty_world_def probed_world_def float_ge_def float_le_def float_eq_def)

subsection \<open>The resolution of a track URL\<close>

text \<open>
  Both export handlers turn \<open>track.url\<close> into a path with \<open>resolve_track_url\<close>: two
  calls of \<open>str.replace\<close>, one after the other. A pattern that starts with a slash
  never matches inside a text without a slash.
\<close>

lemma replace_nonempty_no_slash:
  "hd old = CHR ''/'' \<Longrightarrow> CHR ''/'' \<notin> set s \<Longrightarrow> replace_nonempty old new s = s"
proof (induction s)
  case Nil
  then show ?case by simp
next
  case (Cons c cs)
  have "take (length old) (c # cs) \<noteq> old" if "old \<noteq> []"
  proof
    assume eq: "take (length old) (c # cs) = old"
    from that obtain x xs where old: "old = x # xs"
      by (cases old) auto
    with eq have "x = c"
      by simp
    with old Cons.prems show False
      by simp
  qed
  with Cons show ?case
    by auto
qed

text \<open>A pattern that ends with a slash does not match at the last slash of the text.\<close>

lemma slash_tail_no_match:
  assumes "CHR ''/'' \<notin> set name" and "xs \<noteq> []" and "last xs = CHR ''/''"
  shows "take (length (x # xs)) (CHR ''/'' # name) \<noteq> x # xs"
proof
  assume "take (length (x # xs)) (CHR ''/'' # name) = x # xs"
  then have "take (length xs) name = xs"
    by simp
  then have "set xs \<subseteq> set name"
    by (metis set_take_subset)
  moreover have "last xs \<in> set xs"
    using assms(2) by simp
  ultimately show False
    using assms by auto
qed

lemma resolve_uploads_name:
  assumes "CHR ''/'' \<notin> set name"
  shows "resolve_track_url (''/uploads/'' @ name) = ''uploads/'' @ name"
proof -
  have a: "replace_nonempty ''/uploads/'' ''uploads/'' name = name"
    using assms by (simp add: replace_nonempty_no_slash)
  have b: "replace_nonempty ''/outputs/'' ''outputs/'' name = name"
    using assms by (simp add: replace_nonempty_no_slash)
  have c: "take (length ''/outputs/'') (CHR ''/'' # name) \<noteq> ''/outputs/''"
    using assms by (rule slash_tail_no_match) simp_all
  have first:
    "str_replace ''/uploads/'' ''uploads/'' (''/uploads/'' @ name) = ''uploads/'' @ name"
    using a by (simp add: str_replace_def)
  have second:
    "str_replace ''/outputs/'' ''outputs/'' (''uploads/'' @ name) = ''uploads/'' @ name"
    using b c by (simp add: str_replace_def)
  show ?thesis
    by (simp only: resolve_track_url_def first second)
qed

lemma resolve_outputs_name:
  assumes "CHR ''/'' \<notin> set name"
  shows "resolve_track_url (''/outputs/'' @ name) = ''outputs/'' @ name"
proof -
  have a: "replace_nonempty ''/uploads/'' ''uploads/'' name = name"
    using assms by (simp add: replace_nonempty_no_slash)
  have b: "replace_nonempty ''/outputs/'' ''outputs/'' name = name"
    using assms by (simp add: replace_nonempty_no_slash)
  have c: "take (length ''/uploads/'') (CHR ''/'' # name) \<noteq> ''/uploads/''"
    using assms by (rule slash_tail_no_match) simp_all
  have first:
    "str_replace ''/uploads/'' ''uploads/'' (''/outputs/'' @ name) = ''/outputs/'' @ name"
    using a c by (simp add: str_replace_def)
  have second:
    "str_replace ''/outputs/'' ''outputs/'' (''/outputs/'' @ name) = ''outputs/'' @ name"
    using b by (simp add: str_replace_def)
  show ?thesis
    by (simp only: resolve_track_url_def first second)
qed

text \<open>
  C3, as the code has it. The export handlers resolve a track URL by replacing every
  occurrence of \<open>/uploads/\<close> by \<open>uploads/\<close> and then every occurrence of
  \<open>/outputs/\<close> by \<open>outputs/\<close>, wherever in the URL they stand. For the URLs the server
  itself hands out, a mount prefix followed by a file name without a slash, this is the
  substitution of the local directory for the prefix that leaves the rest unchanged, as the
  specification words it.
\<close>

theorem resolve_track_url_of_served_name:
  assumes "CHR ''/'' \<notin> set name"
  shows "resolve_track_url (''/uploads/'' @ name) = ''uploads/'' @ name \<and>
         resolve_track_url (''/outputs/'' @ name) = ''outputs/'' @ name \<and>
         resolve_track_url (''/uploads/'' @ name) = resolve_by_prefix (''/uploads/'' @ name) \<and>
         resolve_track_url (''/outputs/'' @ name) = resolve_by_prefix (''/outputs/'' @ name)"
proof -
  note up = resolve_uploads_name [OF assms] and out = resolve_outputs_name [OF assms]
  have spec_up: "resolve_by_prefix (''/uploads/'' @ name) = ''uploads/'' @ name"
    by (simp add: resolve_by_prefix_def starts_with_def)
  have spec_out: "resolve_by_prefix (''/outputs/'' @ name) = ''outputs/'' @ name"
    by (simp add: resolve_by_prefix_def starts_with_def)
  show ?thesis
    by (simp only: up out spec_up spec_out)
qed

theorem resolve_track_url_of_served_name_witness:
  "CHR ''/'' \<notin> set ''song.mp3'' \<and>
   resolve_track_url (''/uploads/'' @ ''song.mp3'') = ''uploads/'' @ ''song.mp3'' \<and>
   resolve_track_url (''/outputs/'' @ ''song.mp3'') = ''outputs/'' @ ''song.mp3'' \<and>
   resolve_track_url (''/uploads/'' @ ''song.mp3'') =
     resolve_by_prefix (''/uploads/'' @ ''song.mp3'') \<and>
   resolve_track_url (''/outputs/'' @ ''song.mp3'') =
     resolve_by_prefix (''/outputs/'' @ ''song.mp3'')"
proof -
  have plain: "CHR ''/'' \<notin> set ''song.mp3''"
    by simp
  from plain resolve_track_url_of_served_name [OF plain] show ?thesis
    by (rule conjI)
qed

text \<open>
  C3 as stated fails on a URL that starts with \<open>/uploads/\<close> and has \<open>/outputs/\<close>
  further on: the rest of the URL does not stay as it is. And a URL that starts with
  neither prefix is rewritten where it contains one.
\<close>

theorem resolve_track_url_rewrites_the_rest:
  "starts_with ''/uploads/'' ''/uploads/a/outputs/b'' \<and>
   resolve_by_prefix ''/uploads/a/outputs/b'' = ''uploads/a/outputs/b'' \<and>
   resolve_track_url ''/uploads/a/outputs/b'' = ''uploads/aoutputs/b'' \<and>
   resolve_track_url ''/uploads/a/outputs/b'' \<noteq> resolve_by_prefix ''/uploads/a/outputs/b'' \<and>
   \<not> starts_with ''/uploads/'' ''x/uploads/y'' \<and>
   \<not> starts_with ''/outputs/'' ''x/uploads/y'' \<and>
   resolve_track_url ''x/uploads/y'' = ''xuploads/y''"
  by (simp add: resolve_track_url_def str_replace_def resolve_by_prefix_def starts_with_def)

subsection \<open>The 4-band split\<close>








lemma cleanup_fs_other: "q \<noteq> p \<Longrightarrow> fs (cleanup env verbose p w) q = fs w q"
  by (simp add: cleanup_def logger_def Let_def split: option.splits)




subsection \<open>The scratch input of a request\<close>





























subsection \<open>The export of a mix\<close>

lemma active_tracks_alt:
  "active_tracks ts =
     (if \<exists>t \<in> set ts. solo t then filter solo ts else filter (\<lambda>t. \<not> muted t) ts)"
  by (simp add: active_tracks_def Let_def filter_empty_conv)

lemma active_tracks_first:
  assumes "active_tracks ts = t # others"
  shows "active_tracks [t] = [t]"
proof -
  have mem: "t \<in> set (active_tracks ts)"
    using assms by simp
  show ?thesis
  proof (cases "\<exists>t \<in> set ts. solo t")
    case True
    with mem have "solo t"
      by (simp add: active_tracks_alt)
    then show ?thesis
      by (simp add: active_tracks_def)
  next
    case False
    with mem have "\<not> muted t"
      by (simp add: active_tracks_alt)
    then show ?thesis
      by (simp add: active_tracks_def)
  qed
qed

lemma handle_errors_trace: "trace (snd (handle_errors prefix rw)) = trace (snd rw)"
  by (auto simp: handle_errors_def logger_def split: prod.splits sum.splits exn.splits)

lemma export_mix_try_first:
  assumes "active_tracks (tracks request) = t # others"
  shows "export_mix_try env request w = export_mix_try env (request\<lparr>tracks := [t]\<rparr>) w"
  using assms active_tracks_first [OF assms]
  by (simp add: export_mix_try_def Let_def split_beta cong: sum.case_cong if_cong)

lemma export_mix_try_trace:
  assumes "active_tracks (tracks request) = t # others"
  shows "trace (snd (export_mix_try env request w)) =
     trace w @
       (if stat_error env (path_str (resolve_track_url (url t))) = None \<and>
           path_exists w (path_str (resolve_track_url (url t))) then
          [Spawn ([''ffmpeg'', ''-i'', resolve_track_url (url t),
                   ''-af'', ''volume='' @ float_str env (volume t)]
                  @ get_quality_settings (format request) (quality request)
                  @ [''-y'', path_div ''outputs''
                       (''mix_'' @ uuid_str env (uuids w) @ ''.'' @ format request)]) 180]
        else [])"
  using assms
  by (auto simp: export_mix_try_def Let_def split_beta uuid4_def export_command_def
      run_ffmpeg_command_trace path_exists_def logger_def exists_or_raise_def output_check_def
      split: option.splits sum.splits)

text \<open>
  C5, as the code has it. For every export-mix request the active track set is all solo
  tracks if any track has \<open>solo\<close>, and all tracks that are not muted otherwise. When the
  availability probe succeeds, a request whose active set is empty is rejected with the
  client error HTTP 400, and otherwise only the first active track, in input order, is
  exported: the answer and the world are the ones of the request with that track alone, and
  the one command the handler may spawn after the probe reads that track's resolved URL and
  has the volume filter \<open>volume=\<close> with that track's volume multiplier. When the probe
  fails, the request is answered with the engine-unavailable HTTP 500 whatever its tracks
  are; an exception of the probe goes through.
\<close>

theorem export_mix_first_active_track:
  "active_tracks (tracks request) =
     (if \<exists>t \<in> set (tracks request). solo t then filter solo (tracks request)
      else filter (\<lambda>t. \<not> muted t) (tracks request)) \<and>
   (fst (check_ffmpeg env (logger INFO w)) = Inr True \<longrightarrow>
      (active_tracks (tracks request) = [] \<longrightarrow>
         export_mix env request w =
           (Inl (HTTPException 400 ''No active tracks to export''),
            snd (check_ffmpeg env (logger INFO w)))) \<and>
      (\<forall>t others. active_tracks (tracks request) = t # others \<longrightarrow>
         export_mix env request w = export_mix env (request\<lparr>tracks := [t]\<rparr>) w \<and>
         trace (snd (export_mix env request w)) =
           trace w @ [Spawn [''ffmpeg'', ''-version''] 10] @
             (if stat_error env (path_str (resolve_track_url (url t))) = None \<and>
                 path_exists (snd (check_ffmpeg env (logger INFO w)))
                   (path_str (resolve_track_url (url t))) then
                [Spawn ([''ffmpeg'', ''-i'', resolve_track_url (url t),
                         ''-af'', ''volume='' @ float_str env (volume t)]
                        @ get_quality_settings (format request) (quality request)
                        @ [''-y'', path_div ''outputs''
                             (''mix_'' @ uuid_str env (uuids w) @ ''.'' @ format request)]) 180]
              else []))) \<and>
   (fst (check_ffmpeg env (logger INFO w)) = Inr False \<longrightarrow>
      fst (export_mix env request w) = Inl (HTTPException 500 ffmpeg_unavailable)) \<and>
   (\<forall>e. fst (check_ffmpeg env (logger INFO w)) = Inl e \<longrightarrow>
      fst (export_mix env request w) = Inl e)"
proof -
  obtain a w1 where p: "check_ffmpeg env (logger INFO w) = (a, w1)"
    by (cases "check_ffmpeg env (logger INFO w)")
  then have "w1 = snd (check_ffmpeg env (logger INFO w))"
    by simp
  then have w1: "trace w1 = trace w @ [Spawn [''ffmpeg'', ''-version''] 10]" "uuids w1 = uuids w"
    by (simp_all add: check_ffmpeg_world logger_def)
  have mix: "export_mix env r w = handle_errors ''Export failed: '' (export_mix_try env r w1)"
    if "a = Inr True" for r
    using p that by (simp add: export_mix_def)
  have empty:
    "export_mix env request w = (Inl (HTTPException 400 ''No active tracks to export''), w1)"
    if "a = Inr True" "active_tracks (tracks request) = []"
    using that by (simp add: mix export_mix_try_def handle_errors_def)
  have first: "export_mix env request w = export_mix env (request\<lparr>tracks := [t]\<rparr>) w"
    if "a = Inr True" "active_tracks (tracks request) = t # others" for t others
    using that by (simp add: mix export_mix_try_first [OF that(2)])
  have spawned:
    "trace (snd (export_mix env request w)) =
       trace w @ [Spawn [''ffmpeg'', ''-version''] 10] @
         (if stat_error env (path_str (resolve_track_url (url t))) = None \<and>
             path_exists w1 (path_str (resolve_track_url (url t))) then
            [Spawn ([''ffmpeg'', ''-i'', resolve_track_url (url t),
                     ''-af'', ''volume='' @ float_str env (volume t)]
                    @ get_quality_settings (format request) (quality request)
                    @ [''-y'', path_div ''outputs''
                         (''mix_'' @ uuid_str env (uuids w) @ ''.'' @ format request)]) 180]
          else [])"
    if "a = Inr True" "active_tracks (tracks request) = t # others" for t others
    using export_mix_try_trace [OF that(2), of env w1]
    by (simp add: mix [OF that(1)] handle_errors_trace w1)
  have closed: "fst (export_mix env request w) = Inl (HTTPException 500 ffmpeg_unavailable)"
    if "a = Inr False"
    using p that by (simp add: export_mix_def)
  have raised: "fst (export_mix env request w) = Inl e" if "a = Inl e" for e
    using p that by (simp add: export_mix_def)
  show ?thesis
    unfolding p fst_conv snd_conv
  proof (intro conjI allI impI)
    show "active_tracks (tracks request) =
           (if \<exists>t \<in> set (tracks request). solo t then filter solo (tracks request)
            else filter (\<lambda>t. \<not> muted t) (tracks request))"
      by (rule active_tracks_alt)
  qed (fact empty first spawned closed raised)+
qed

text \<open>
  The witness runs the specification's two examples and a request whose only track is
  muted on a machine with a working \<open>ffmpeg\<close> and the uploads on disk, and the first
  example on a machine without \<open>ffmpeg\<close> and on one whose \<open>ffmpeg\<close> may not be
  executed.
\<close>

theorem export_mix_first_active_track_witness:
  "fst (check_ffmpeg demo_env (logger INFO stocked_world)) = Inr True \<and>
   fst (check_ffmpeg no_ffmpeg_env (logger INFO stocked_world)) = Inr False \<and>
   fst (check_ffmpeg locked_ffmpeg_env (logger INFO stocked_world)) =
     Inl (Exception ''[Errno 13] Permission denied'') \<and>
   active_tracks (tracks solo_mix_request) = [solo_track] \<and>
   active_tracks (tracks plain_mix_request) = [demo_track] \<and>
   active_tracks (tracks muted_mix_request) = [] \<and>
   export_mix demo_env muted_mix_request stocked_world =
     (Inl (HTTPException 400 ''No active tracks to export''), probed_stocked_world) \<and>
   export_mix demo_env solo_mix_request stocked_world =
     export_mix demo_env (solo_mix_request\<lparr>tracks := [solo_track]\<rparr>) stocked_world \<and>
   trace (snd (export_mix demo_env solo_mix_request stocked_world)) =
     [Spawn [''ffmpeg'', ''-version''] 10,
      Spawn [''ffmpeg'', ''-i'', ''uploads/solo.wav'', ''-af'', ''volume=0.5'',
             ''-b:a'', ''320k'', ''-y'', ''outputs/mix_u.mp3''] 180] \<and>
   fst (export_mix no_ffmpeg_env solo_mix_request stocked_world) =
     Inl (HTTPException 500 ffmpeg_unavailable) \<and>
   fst (export_mix locked_ffmpeg_env solo_mix_request stocked_world) =
     Inl (Exception ''[Errno 13] Permission denied'')"
proof -
  have probe: "check_ffmpeg demo_env (logger INFO stocked_world) = (Inr True, probed_stocked_world)"
    by (simp add: check_ffmpeg_def subprocess_run_def logger_def demo_env_def
        stocked_world_def probed_stocked_world_def)
  then have passes: "fst (check_ffmpeg demo_env (logger INFO stocked_world)) = Inr True"
    and after: "snd (check_ffmpeg demo_env (logger INFO stocked_world)) = probed_stocked_world"
    by simp_all
  have fails: "fst (check_ffmpeg no_ffmpeg_env (logger INFO stocked_world)) = Inr False"
    by (simp add: check_ffmpeg_def subprocess_run_def logger_def no_ffmpeg_env_def
        demo_env_def stocked_world_def)
  have raises: "fst (check_ffmpeg locked_ffmpeg_env (logger INFO stocked_world)) =
      Inl (Exception ''[Errno 13] Permission denied'')"
    by (simp add: check_ffmpeg_def subprocess_run_def logger_def locked_ffmpeg_env_def
        demo_env_def stocked_world_def)
  have solo: "active_tracks (tracks solo_mix_request) = [solo_track]"
    by (simp add: active_tracks_def solo_mix_request_def demo_track_def solo_track_def
        muted_track_def)
  have plain: "active_tracks (tracks plain_mix_request) = [demo_track]"
    by (simp add: active_tracks_def plain_mix_request_def demo_track_def muted_track_def)
  have muted: "active_tracks (tracks muted_mix_request) = []"
    by (simp add: active_tracks_def muted_mix_request_def muted_track_def)
  note rejected =
    export_mix_first_active_track [of muted_mix_request demo_env stocked_world,
      THEN conjunct2, THEN conjunct1, rule_format, OF passes, THEN conjunct1, rule_format,
      OF muted, unfolded after]
  note first =
    export_mix_first_active_track [of solo_mix_request demo_env stocked_world,
      THEN conjunct2, THEN conjunct1, rule_format, OF passes, THEN conjunct2, rule_format,
      OF solo, unfolded after]
  note closed =
    export_mix_first_active_track [of solo_mix_request no_ffmpeg_env stocked_world,
      THEN conjunct2, THEN conjunct2, THEN conjunct1, rule_format, OF fails]
  note raised =
    export_mix_first_active_track [of solo_mix_request locked_ffmpeg_env stocked_world,
      THEN conjunct2, THEN conjunct2, THEN conjunct2, rule_format, OF raises]
  have spawned:
    "trace (snd (export_mix demo_env solo_mix_request stocked_world)) =
       [Spawn [''ffmpeg'', ''-version''] 10,
        Spawn [''ffmpeg'', ''-i'', ''uploads/solo.wav'', ''-af'', ''volume=0.5'',
               ''-b:a'', ''320k'', ''-y'', ''outputs/mix_u.mp3''] 180]"
    using first [THEN conjunct2]
    by (simp add: probed_stocked_world_def stocked_world_def solo_track_def
        solo_mix_request_def demo_env_def resolve_track_url_def str_replace_def
        get_quality_settings_def quality_map_def path_exists_def path_str_def path_div_def
        path_root_def path_parts_def format_parsed_def)
  from passes fails raises solo plain muted rejected first [THEN conjunct1] spawned closed
    raised
  show ?thesis
    by (intro conjI)
qed

text \<open>
  C5 as stated fails behind a closed gate: on a machine without \<open>ffmpeg\<close> the request
  whose only track is muted has an empty active set and is answered with HTTP 500, the
  engine-unavailable server error, not with a client error.
\<close>

theorem export_mix_empty_set_answered_500:
  "active_tracks (tracks muted_mix_request) = [] \<and>
   export_mix no_ffmpeg_env muted_mix_request empty_world =
     (Inl (HTTPException 500 ffmpeg_unavailable), probed_world)"
  by (simp add: active_tracks_def muted_mix_request_def muted_track_def export_mix_def
      check_ffmpeg_def subprocess_run_def logger_def no_ffmpeg_env_def demo_env_def
      empty_world_def probed_world_def)

subsection \<open>An export format that the quality table does not know\<close>

lemma get_quality_settings_other:
  "fmt \<notin> {''mp3'', ''wav''} \<Longrightarrow> get_quality_settings fmt qual = []"
  by (simp add: get_quality_settings_def)

lemma split_on_no_sep: "sep \<notin> set s \<Longrightarrow> split_on sep s = [s]"
  by (induction s) auto

lemma path_div_outputs_name:
  assumes "CHR ''/'' \<notin> set name" and "name \<noteq> []" and "name \<noteq> ''.''"
  shows "path_div ''outputs'' name = ''outputs/'' @ name"
proof -
  have anchor: "path_root name = []"
    using assms by (cases name) (auto simp: path_root_def)
  have parts: "path_parts name = [name]"
    using assms by (simp add: path_parts_def split_on_no_sep)
  have dir: "path_parts ''outputs'' = [''outputs'']" "path_root ''outputs'' = []"
    by (simp_all add: path_parts_def path_root_def)
  show ?thesis
    by (simp add: path_div_def anchor parts dir format_parsed_def)
qed

text \<open>
  C10, as the code has it. For every format string other than \<open>mp3\<close> and \<open>wav\<close> the
  quality-settings function returns the empty parameter list. An export request (mix or
  track) with such a format is not rejected for its format: when the probe succeeds and the
  source file is found, the handler runs the external command with no codec parameter
  between the volume filter and \<open>-y\<close>, and the answer is the URL
  \<open>/outputs/<kind>_<uuid>.<format>\<close>, with the raw format string, unless the command
  fails or the check of the output fails. The output file is
  \<open>OUTPUT_DIR / "<kind>_<uuid>.<format>"\<close> as \<open>pathlib\<close> normalises it: for a format
  (and a UUID) without a slash it is \<open>outputs/<kind>_<uuid>.<format>\<close>, so the raw format
  string is the extension of the output file.
\<close>

theorem export_unrecognized_format:
  assumes other: "fmt \<notin> {''mp3'', ''wav''}"
    and probe: "check_ffmpeg env (logger INFO w) = (Inr True, w1)"
  shows "get_quality_settings fmt qual = [] \<and>
    (\<forall>t others. format request = fmt \<longrightarrow> active_tracks (tracks request) = t # others \<longrightarrow>
        stat_error env (path_str (resolve_track_url (url t))) = None \<longrightarrow>
        path_exists w1 (path_str (resolve_track_url (url t))) \<longrightarrow>
        export_mix env request w =
          (let output_filename = ''mix_'' @ uuid_str env (uuids w1) @ ''.'' @ fmt;
               output_path = path_div ''outputs'' output_filename;
               (success, w2) =
                 run_ffmpeg_command env
                   [''ffmpeg'', ''-i'', resolve_track_url (url t),
                    ''-af'', ''volume='' @ float_str env (volume t),
                    ''-y'', output_path] 180 (w1\<lparr>uuids := Suc (uuids w1)\<rparr>)
           in if \<not> success then (Inl (HTTPException 500 ''Failed to export mix''), w2)
              else (case stat_error env output_path of
                      Some m \<Rightarrow>
                        (Inl (HTTPException 500 (''Export failed: '' @ m)), logger ERROR w2)
                    | None \<Rightarrow>
                        if output_missing_or_empty w2 output_path then
                          (Inl (HTTPException 500 ''Export produced empty file''), w2)
                        else
                          (Inr [(''url'', ''/outputs/'' @ output_filename)], logger INFO w2)))) \<and>
    (track_format track_request = fmt \<longrightarrow>
        stat_error env (path_str (resolve_track_url (url (track track_request)))) = None \<longrightarrow>
        path_exists w1 (path_str (resolve_track_url (url (track track_request)))) \<longrightarrow>
        export_track env track_request w =
          (let output_filename = ''track_'' @ uuid_str env (uuids w1) @ ''.'' @ fmt;
               output_path = path_div ''outputs'' output_filename;
               (success, w2) =
                 run_ffmpeg_command env
                   [''ffmpeg'', ''-i'', resolve_track_url (url (track track_request)),
                    ''-af'', ''volume='' @ float_str env (volume (track track_request)),
                    ''-y'', output_path] 180 (w1\<lparr>uuids := Suc (uuids w1)\<rparr>)
           in if \<not> success then (Inl (HTTPException 500 ''Failed to export track''), w2)
              else (case stat_error env output_path of
                      Some m \<Rightarrow>
                        (Inl (HTTPException 500 (''Track export failed: '' @ m)),
                         logger ERROR w2)
                    | None \<Rightarrow>
                        if output_missing_or_empty w2 output_path then
                          (Inl (HTTPException 500 ''Export produced empty file''), w2)
                        else
                          (Inr [(''url'', ''/outputs/'' @ output_filename)], logger INFO w2)))) \<and>
    (\<forall>u. CHR ''/'' \<notin> set fmt \<longrightarrow> CHR ''/'' \<notin> set u \<longrightarrow>
        path_div ''outputs'' (''mix_'' @ u @ ''.'' @ fmt) = ''outputs/'' @ ''mix_'' @ u @ ''.'' @ fmt \<and>
        path_div ''outputs'' (''track_'' @ u @ ''.'' @ fmt) =
          ''outputs/'' @ ''track_'' @ u @ ''.'' @ fmt)"
proof -
  have settings: "get_quality_settings fmt q = []" for q
    using other by (rule get_quality_settings_other)
  have mix: "export_mix env request w =
      handle_errors ''Export failed: '' (export_mix_try env request w1)"
    using probe by (simp add: export_mix_def)
  have trk: "export_track env track_request w =
      handle_errors ''Track export failed: '' (export_track_try env track_request w1)"
    using probe by (simp add: export_track_def)
  show ?thesis
  proof (intro conjI allI impI)
    show "get_quality_settings fmt qual = []"
      by (rule settings)
  next
    fix t others
    assume "format request = fmt" "active_tracks (tracks request) = t # others"
      "stat_error env (path_str (resolve_track_url (url t))) = None"
      "path_exists w1 (path_str (resolve_track_url (url t)))"
    then show "export_mix env request w =
          (let output_filename = ''mix_'' @ uuid_str env (uuids w1) @ ''.'' @ fmt;
               output_path = path_div ''outputs'' output_filename;
               (success, w2) =
                 run_ffmpeg_command env
                   [''ffmpeg'', ''-i'', resolve_track_url (url t),
                    ''-af'', ''volume='' @ float_str env (volume t),
                    ''-y'', output_path] 180 (w1\<lparr>uuids := Suc (uuids w1)\<rparr>)
           in if \<not> success then (Inl (HTTPException 500 ''Failed to export mix''), w2)
              else (case stat_error env output_path of
                      Some m \<Rightarrow>
                        (Inl (HTTPException 500 (''Export failed: '' @ m)), logger ERROR w2)
                    | None \<Rightarrow>
                        if output_missing_or_empty w2 output_path then
                          (Inl (HTTPException 500 ''Export produced empty file''), w2)
                        else
                          (Inr [(''url'', ''/outputs/'' @ output_filename)], logger INFO w2)))"
      using settings
      by (simp add: mix export_mix_try_def uuid4_def Let_def split_beta export_command_def
          path_exists_def exists_or_raise_def output_check_def handle_errors_def
          split: option.splits)
  next
    assume "track_format track_request = fmt"
      "stat_error env (path_str (resolve_track_url (url (track track_request)))) = None"
      "path_exists w1 (path_str (resolve_track_url (url (track track_request))))"
    then show "export_track env track_request w =
          (let output_filename = ''track_'' @ uuid_str env (uuids w1) @ ''.'' @ fmt;
               output_path = path_div ''outputs'' output_filename;
               (success, w2) =
                 run_ffmpeg_command env
                   [''ffmpeg'', ''-i'', resolve_track_url (url (track track_request)),
                    ''-af'', ''volume='' @ float_str env (volume (track track_request)),
                    ''-y'', output_path] 180 (w1\<lparr>uuids := Suc (uuids w1)\<rparr>)
           in if \<not> success then (Inl (HTTPException 500 ''Failed to export track''), w2)
              else (case stat_error env output_path of
                      Some m \<Rightarrow>
                        (Inl (HTTPException 500 (''Track export failed: '' @ m)),
                         logger ERROR w2)
                    | None \<Rightarrow>
                        if output_missing_or_empty w2 output_path then
                          (Inl (HTTPException 500 ''Export produced empty file''), w2)
                        else
                          (Inr [(''url'', ''/outputs/'' @ output_filename)], logger INFO w2)))"
      using settings
      by (simp add: trk export_track_try_def uuid4_def Let_def split_beta export_command_def
          path_exists_def exists_or_raise_def output_check_def handle_errors_def
          split: option.splits)
  next
    fix u :: string
    assume plain: "CHR ''/'' \<notin> set fmt" "CHR ''/'' \<notin> set u"
    have "path_div ''outputs'' (''mix_'' @ (u @ ''.'' @ fmt)) =
        ''outputs/'' @ ''mix_'' @ (u @ ''.'' @ fmt)"
      using plain by (intro path_div_outputs_name) simp_all
    then show "path_div ''outputs'' (''mix_'' @ u @ ''.'' @ fmt) =
        ''outputs/'' @ ''mix_'' @ u @ ''.'' @ fmt"
      by simp
    have "path_div ''outputs'' (''track_'' @ (u @ ''.'' @ fmt)) =
        ''outputs/'' @ ''track_'' @ (u @ ''.'' @ fmt)"
      using plain by (intro path_div_outputs_name) simp_all
    then show "path_div ''outputs'' (''track_'' @ u @ ''.'' @ fmt) =
        ''outputs/'' @ ''track_'' @ u @ ''.'' @ fmt"
      by simp
  qed
qed

theorem export_unrecognized_format_witness:
  "''flac'' \<notin> {''mp3'', ''wav''} \<and>
   check_ffmpeg demo_env (logger INFO stocked_world) = (Inr True, probed_stocked_world) \<and>
   CHR ''/'' \<notin> set ''flac'' \<and> CHR ''/'' \<notin> set ''u'' \<and>
   get_quality_settings ''flac'' ''high'' = [] \<and>
   path_div ''outputs'' (''mix_'' @ ''u'' @ ''.'' @ ''flac'') =
     ''outputs/'' @ ''mix_'' @ ''u'' @ ''.'' @ ''flac'' \<and>
   fst (export_mix demo_env flac_mix_request stocked_world) =
     Inr [(''url'', ''/outputs/mix_u.flac'')] \<and>
   trace (snd (export_mix demo_env flac_mix_request stocked_world)) =
     [Spawn [''ffmpeg'', ''-version''] 10,
      Spawn [''ffmpeg'', ''-i'', ''uploads/song.mp3'', ''-af'', ''volume=1.0'',
             ''-y'', ''outputs/mix_u.flac''] 180] \<and>
   fst (export_track demo_env flac_track_request stocked_world) =
     Inr [(''url'', ''/outputs/track_u.flac'')] \<and>
   trace (snd (export_track demo_env flac_track_request stocked_world)) =
     [Spawn [''ffmpeg'', ''-version''] 10,
      Spawn [''ffmpeg'', ''-i'', ''uploads/song.mp3'', ''-af'', ''volume=1.0'',
             ''-y'', ''outputs/track_u.flac''] 180]"
proof -
  have other: "''flac'' \<notin> {''mp3'', ''wav''}"
    by simp
  have probe:
    "check_ffmpeg demo_env (logger INFO stocked_world) = (Inr True, probed_stocked_world)"
    by (simp add: check_ffmpeg_def subprocess_run_def logger_def demo_env_def
        stocked_world_def probed_stocked_world_def)
  have plain: "CHR ''/'' \<notin> set ''flac''" and plain': "CHR ''/'' \<notin> set ''u''"
    by simp_all
  note claim = export_unrecognized_format [OF other probe]
  have active: "active_tracks (tracks flac_mix_request) = [demo_track]"
    by (simp add: active_tracks_def flac_mix_request_def demo_track_def)
  have path: "resolve_track_url (url demo_track) = ''uploads/song.mp3''"
    by (simp add: demo_track_def resolve_track_url_def str_replace_def)
  have quiet: "stat_error demo_env (path_str (resolve_track_url (url demo_track))) = None"
    by (simp add: demo_env_def)
  have quiet': "stat_error demo_env
      (path_str (resolve_track_url (url (track flac_track_request)))) = None"
    by (simp add: demo_env_def)
  have source: "path_exists probed_stocked_world (path_str (resolve_track_url (url demo_track)))"
    by (simp add: path path_exists_def probed_stocked_world_def path_str_def path_root_def
        path_parts_def format_parsed_def)
  have source': "path_exists probed_stocked_world
      (path_str (resolve_track_url (url (track flac_track_request))))"
    using source by (simp add: flac_track_request_def)
  have fmt: "format flac_mix_request = ''flac''"
    by (simp add: flac_mix_request_def)
  have fmt': "track_format flac_track_request = ''flac''"
    by (simp add: flac_track_request_def)
  note mix = claim [THEN conjunct2, THEN conjunct1, rule_format, OF fmt active quiet source]
  note trk = claim [THEN conjunct2, THEN conjunct2, THEN conjunct1, rule_format,
    OF fmt' quiet' source']
  note on_disk = claim [THEN conjunct2, THEN conjunct2, THEN conjunct2, rule_format,
    OF plain plain', THEN conjunct1]
  have mix_answer: "fst (export_mix demo_env flac_mix_request stocked_world) =
      Inr [(''url'', ''/outputs/mix_u.flac'')]"
    and mix_trace: "trace (snd (export_mix demo_env flac_mix_request stocked_world)) =
     [Spawn [''ffmpeg'', ''-version''] 10,
      Spawn [''ffmpeg'', ''-i'', ''uploads/song.mp3'', ''-af'', ''volume=1.0'',
             ''-y'', ''outputs/mix_u.flac''] 180]"
    unfolding mix path
    by (simp_all add: Let_def run_ffmpeg_command_def subprocess_run_def logger_def demo_env_def
        probed_stocked_world_def demo_track_def output_missing_or_empty_def path_exists_def
        st_size_def path_div_def path_root_def path_parts_def format_parsed_def)
  have trk_answer: "fst (export_track demo_env flac_track_request stocked_world) =
      Inr [(''url'', ''/outputs/track_u.flac'')]"
    and trk_trace: "trace (snd (export_track demo_env flac_track_request stocked_world)) =
     [Spawn [''ffmpeg'', ''-version''] 10,
      Spawn [''ffmpeg'', ''-i'', ''uploads/song.mp3'', ''-af'', ''volume=1.0'',
             ''-y'', ''outputs/track_u.flac''] 180]"
    unfolding trk
    by (simp_all add: Let_def run_ffmpeg_command_def subprocess_run_def logger_def demo_env_def
        probed_stocked_world_def demo_track_def output_missing_or_empty_def path_exists_def
        st_size_def flac_track_request_def resolve_track_url_def str_replace_def
        path_div_def path_root_def path_parts_def format_parsed_def)
  from other probe plain plain' claim [THEN conjunct1] on_disk mix_answer mix_trace trk_answer
    trk_trace
  show ?thesis
    by (intro conjI)
qed

text \<open>
  C10 as stated fails for the format \<open>mp3/.\<close>, which is neither \<open>mp3\<close> nor \<open>wav\<close>:
  the request is answered with the URL that ends in the raw format string, and the file
  that the command writes and the handler checks is \<open>outputs/track_u.mp3\<close>, whose
  extension is \<open>mp3\<close>; nothing lies at the path with the raw format string.
\<close>

theorem export_format_with_dropped_part:
  "''mp3/.'' \<notin> {''mp3'', ''wav''} \<and>
   fst (export_track demo_env slash_track_request stocked_world) =
     Inr [(''url'', ''/outputs/track_u.mp3/.'')] \<and>
   trace (snd (export_track demo_env slash_track_request stocked_world)) =
     [Spawn [''ffmpeg'', ''-version''] 10,
      Spawn [''ffmpeg'', ''-i'', ''uploads/song.mp3'', ''-af'', ''volume=1.0'',
             ''-y'', ''outputs/track_u.mp3''] 180] \<and>
   fs (snd (export_track demo_env slash_track_request stocked_world)) ''outputs/track_u.mp3'' =
     Some ''RIFF'' \<and>
   fs (snd (export_track demo_env slash_track_request stocked_world)) ''outputs/track_u.mp3/.'' =
     None \<and>
   fst (export_mix demo_env slash_mix_request stocked_world) =
     Inr [(''url'', ''/outputs/mix_u.mp3/.'')] \<and>
   trace (snd (export_mix demo_env slash_mix_request stocked_world)) =
     [Spawn [''ffmpeg'', ''-version''] 10,
      Spawn [''ffmpeg'', ''-i'', ''uploads/song.mp3'', ''-af'', ''volume=1.0'',
             ''-y'', ''outputs/mix_u.mp3''] 180]"
  by (simp add: export_track_def export_track_try_def export_mix_def export_mix_try_def
      active_tracks_def check_ffmpeg_def
      subprocess_run_def logger_def uuid4_def handle_errors_def exists_or_raise_def
      output_check_def output_missing_or_empty_def path_exists_def st_size_def
      export_command_def get_quality_settings_def run_ffmpeg_command_def
      resolve_track_url_def str_replace_def path_str_def path_div_def path_root_def
      path_parts_def format_parsed_def slash_track_request_def slash_mix_request_def
      demo_track_def demo_env_def stocked_world_def Let_def)

subsection \<open>A probe that raises\<close>

text \<open>
  C9. If the availability probe fails, every transformation endpoint (cut, fade,
  vocal/music split, 4-band split, export mix, export track) returns the distinct
  engine-unavailable server error before any file system write for the request. The code
  keeps this when \<open>check_ffmpeg\<close> returns false (\<open>engine_unavailable_fails_fast\<close>),
  and misses the probe that fails by raising: \<open>check_ffmpeg\<close> catches
  \<open>FileNotFoundError\<close> and \<open>TimeoutExpired\<close> only, and every handler calls it before
  its \<open>try\<close> block. On a machine whose \<open>ffmpeg\<close> may not be executed
  \<open>subprocess.run\<close> raises \<open>PermissionError\<close>, and each of the six handlers raises
  it on instead of answering with the engine-unavailable error, while
  \<open>run_ffmpeg_command\<close>, with its \<open>except Exception\<close> clause, returns false on the
  same machine.
\<close>

theorem engine_probe_raises_unhandled:
  "check_ffmpeg locked_ffmpeg_env (logger INFO empty_world) =
     (Inl (Exception ''[Errno 13] Permission denied''), probed_world) \<and>
   cut_audio locked_ffmpeg_env demo_file (Fin 1) (Fin 2) empty_world =
     (Inl (Exception ''[Errno 13] Permission denied''), probed_world) \<and>
   apply_fade locked_ffmpeg_env demo_file ''in'' (Fin 1) empty_world =
     (Inl (Exception ''[Errno 13] Permission denied''), probed_world) \<and>
   separate_vocal_music locked_ffmpeg_env demo_file empty_world =
     (Inl (Exception ''[Errno 13] Permission denied''), probed_world) \<and>
   separate_instruments locked_ffmpeg_env demo_file empty_world =
     (Inl (Exception ''[Errno 13] Permission denied''), probed_world) \<and>
   export_mix locked_ffmpeg_env demo_mix_request empty_world =
     (Inl (Exception ''[Errno 13] Permission denied''), probed_world) \<and>
   export_track locked_ffmpeg_env demo_track_request empty_world =
     (Inl (Exception ''[Errno 13] Permission denied''), probed_world) \<and>
   \<not> fst (run_ffmpeg_command locked_ffmpeg_env [''ffmpeg'', ''-version''] 10 empty_world)"
  by (simp add: cut_audio_def apply_fade_def separate_vocal_music_def
      separate_instruments_def export_mix_def export_track_def check_ffmpeg_def
      run_ffmpeg_command_def subprocess_run_def logger_def locked_ffmpeg_env_def demo_env_def
      empty_world_def probed_world_def)

subsection \<open>The check of the outputs\<close>

text \<open>
  A cut or a fade that reports success has checked its output: the URL it returns is
  \<open>/outputs/\<close> and a name, and the file \<open>outputs/\<close> with that name exists and is not
  empty when the handler returns.
\<close>

lemma output_checked:
  "\<not> output_missing_or_empty w p \<Longrightarrow> \<exists>content. fs w p = Some content \<and> content \<noteq> []"
  by (auto simp: output_missing_or_empty_def path_exists_def st_size_def)

lemma cleanup_keeps_output:
  "fs (cleanup env verbose (temp_input env file u) w) (''outputs/'' @ name) =
     fs w (''outputs/'' @ name)"
  by (rule cleanup_fs_other) (simp add: temp_input_def)

lemma logger_fs: "fs (logger lvl w) = fs w"
  by (simp add: logger_def)

lemma handle_errors_Inr:
  "fst (handle_errors prefix rw) = Inr r \<Longrightarrow> handle_errors prefix rw = rw"
  by (auto simp: handle_errors_def split: prod.splits sum.splits exn.splits)

lemma cut_try_output:
  assumes "fst (cut_try env file start_time end_time tmp w) = Inr r"
  shows "\<exists>name content. r = [(''url'', ''/outputs/'' @ name)] \<and>
     fs (snd (cut_try env file start_time end_time tmp w)) (''outputs/'' @ name) = Some content \<and>
     content \<noteq> []"
  using assms
  by (auto simp: cut_try_def Let_def split_beta logger_fs uuid4_def dest: output_checked
      split: sum.splits if_splits prod.splits)

lemma cut_audio_output:
  assumes "fst (cut_audio env file start_time end_time w) = Inr r"
  shows "\<exists>name content. r = [(''url'', ''/outputs/'' @ name)] \<and>
     fs (snd (cut_audio env file start_time end_time w)) (''outputs/'' @ name) = Some content \<and>
     content \<noteq> []"
proof -
  obtain a w1 where p: "check_ffmpeg env (logger INFO w) = (a, w1)"
    by (cases "check_ffmpeg env (logger INFO w)")
  define tmp where "tmp = temp_input env file (uuid_str env (uuids w1))"
  define body where
    "body = cut_try env file start_time end_time tmp (w1\<lparr>uuids := Suc (uuids w1)\<rparr>)"
  have whole: "cut_audio env file start_time end_time w =
      (fst (handle_errors ''Cut operation failed: '' body),
       cleanup env True tmp (snd (handle_errors ''Cut operation failed: '' body)))"
    and ok: "fst (handle_errors ''Cut operation failed: '' body) = Inr r"
    using assms p
    by (auto simp: cut_audio_def split_beta Let_def uuid4_def tmp_def body_def
        split: sum.splits if_splits)
  have same: "handle_errors ''Cut operation failed: '' body = body"
    using ok by (rule handle_errors_Inr)
  from ok same have "fst body = Inr r"
    by simp
  then obtain name content where "r = [(''url'', ''/outputs/'' @ name)]"
    "fs (snd body) (''outputs/'' @ name) = Some content" "content \<noteq> []"
    unfolding body_def using cut_try_output by blast
  moreover have "fs (cleanup env True tmp (snd body)) (''outputs/'' @ name) =
      fs (snd body) (''outputs/'' @ name)"
    unfolding tmp_def by (rule cleanup_keeps_output)
  ultimately show ?thesis
    by (simp add: whole same)
qed

lemma fade_try_output:
  assumes "fst (fade_try env file fade_type duration tmp w) = Inr r"
  shows "\<exists>name content. r = [(''url'', ''/outputs/'' @ name)] \<and>
     fs (snd (fade_try env file fade_type duration tmp w)) (''outputs/'' @ name) = Some content \<and>
     content \<noteq> []"
  using assms
  by (auto simp: fade_try_def Let_def split_beta logger_fs uuid4_def dest: output_checked
      split: sum.splits if_splits prod.splits)

lemma apply_fade_output:
  assumes "fst (apply_fade env file fade_type duration w) = Inr r"
  shows "\<exists>name content. r = [(''url'', ''/outputs/'' @ name)] \<and>
     fs (snd (apply_fade env file fade_type duration w)) (''outputs/'' @ name) = Some content \<and>
     content \<noteq> []"
proof -
  obtain a w1 where p: "check_ffmpeg env (logger INFO w) = (a, w1)"
    by (cases "check_ffmpeg env (logger INFO w)")
  define tmp where "tmp = temp_input env file (uuid_str env (uuids w1))"
  define body where
    "body = fade_try env file fade_type duration tmp (w1\<lparr>uuids := Suc (uuids w1)\<rparr>)"
  have whole: "apply_fade env file fade_type duration w =
      (fst (handle_errors ''Fade operation failed: '' body),
       cleanup env False tmp (snd (handle_errors ''Fade operation failed: '' body)))"
    and ok: "fst (handle_errors ''Fade operation failed: '' body) = Inr r"
    using assms p
    by (auto simp: apply_fade_def split_beta Let_def uuid4_def tmp_def body_def
        split: sum.splits if_splits)
  have same: "handle_errors ''Fade operation failed: '' body = body"
    using ok by (rule handle_errors_Inr)
  from ok same have "fst body = Inr r"
    by simp
  then obtain name content where "r = [(''url'', ''/outputs/'' @ name)]"
    "fs (snd body) (''outputs/'' @ name) = Some content" "content \<noteq> []"
    unfolding body_def using fade_try_output by blast
  moreover have "fs (cleanup env False tmp (snd body)) (''outputs/'' @ name) =
      fs (snd body) (''outputs/'' @ name)"
    unfolding tmp_def by (rule cleanup_keeps_output)
  ultimately show ?thesis
    by (simp add: whole same)
qed

text \<open>
  An export that reports success has checked its output as well: the URL it returns is
  \<open>/outputs/\<close> and a name, and the file \<open>OUTPUT_DIR / name\<close> exists and is not
  empty when the handler returns.
\<close>

lemma output_check_passed:
  "output_check env w p = Inr False \<Longrightarrow> \<exists>content. fs w p = Some content \<and> content \<noteq> []"
  by (auto simp: output_check_def dest: output_checked split: option.splits)

lemma export_mix_try_output:
  assumes "fst (export_mix_try env request w) = Inr r"
  shows "\<exists>name content. r = [(''url'', ''/outputs/'' @ name)] \<and>
     fs (snd (export_mix_try env request w)) (path_div ''outputs'' name) = Some content \<and>
     content \<noteq> []"
  using assms
  by (auto simp: export_mix_try_def Let_def split_beta logger_fs uuid4_def
      dest!: output_check_passed
      split: sum.splits if_splits list.splits bool.splits)

lemma export_mix_output:
  assumes "fst (export_mix env request w) = Inr r"
  shows "\<exists>name content. r = [(''url'', ''/outputs/'' @ name)] \<and>
     fs (snd (export_mix env request w)) (path_div ''outputs'' name) = Some content \<and>
     content \<noteq> []"
proof -
  obtain a w1 where p: "check_ffmpeg env (logger INFO w) = (a, w1)"
    by (cases "check_ffmpeg env (logger INFO w)")
  have whole: "export_mix env request w =
      handle_errors ''Export failed: '' (export_mix_try env request w1)"
    using assms p by (auto simp: export_mix_def split: sum.splits if_splits)
  with assms have "handle_errors ''Export failed: '' (export_mix_try env request w1) =
      export_mix_try env request w1"
    by (intro handle_errors_Inr) simp
  with whole assms export_mix_try_output [of env request w1 r] show ?thesis
    by simp
qed

lemma export_track_try_output:
  assumes "fst (export_track_try env request w) = Inr r"
  shows "\<exists>name content. r = [(''url'', ''/outputs/'' @ name)] \<and>
     fs (snd (export_track_try env request w)) (path_div ''outputs'' name) = Some content \<and>
     content \<noteq> []"
  using assms
  by (auto simp: export_track_try_def Let_def split_beta logger_fs uuid4_def
      dest!: output_check_passed
      split: sum.splits if_splits bool.splits)

lemma export_track_output:
  assumes "fst (export_track env request w) = Inr r"
  shows "\<exists>name content. r = [(''url'', ''/outputs/'' @ name)] \<and>
     fs (snd (export_track env request w)) (path_div ''outputs'' name) = Some content \<and>
     content \<noteq> []"
proof -
  obtain a w1 where p: "check_ffmpeg env (logger INFO w) = (a, w1)"
    by (cases "check_ffmpeg env (logger INFO w)")
  have whole: "export_track env request w =
      handle_errors ''Track export failed: '' (export_track_try env request w1)"
    using assms p by (auto simp: export_track_def split: sum.splits if_splits)
  with assms have "handle_errors ''Track export failed: '' (export_track_try env request w1) =
      export_track_try env request w1"
    by (intro handle_errors_Inr) simp
  with whole assms export_track_try_output [of env request w1 r] show ?thesis
    by simp
qed

text \<open>
  C1. For every transformation operation (cut, fade, vocal/music split, 4-band split,
  export mix, export track), if the operation reports success, every output path it
  reports is a file that exists and has a size greater than zero; an operation that
  produced a missing or empty output reports failure. The code keeps this in the cut, the
  fade and the two exports (above) and breaks it in the two splits. \<open>separate_instruments\<close> counts the
  commands that exit with 0 and looks at no output: with an \<open>ffmpeg\<close> that exits with 0
  and writes nothing it reports success with four URLs, and no file is there.
  \<open>separate_vocal_music\<close> says \<open>Verify outputs\<close> and \<open>Separation produced empty
  files\<close>, and checks only that the two outputs exist: with an \<open>ffmpeg\<close> that leaves
  outputs of zero bytes it reports success. On the same two machines the cut reports
  \<open>Cut operation produced empty file\<close>.
\<close>

theorem splits_report_unchecked_outputs:
  "fst (separate_instruments silent_env demo_file empty_world) =
     Inr [(''vocals'', ''/outputs/vocals_uu.wav''), (''drums'', ''/outputs/drums_uuu.wav''),
          (''bass'', ''/outputs/bass_uuuu.wav''), (''other'', ''/outputs/other_uuuuu.wav'')] \<and>
   fs (snd (separate_instruments silent_env demo_file empty_world)) = Map.empty \<and>
   fst (separate_vocal_music hollow_env demo_file empty_world) =
     Inr [(''vocal'', ''/outputs/vocal_uu.wav''), (''music'', ''/outputs/music_uuu.wav'')] \<and>
   fs (snd (separate_vocal_music hollow_env demo_file empty_world)) ''outputs/vocal_uu.wav'' =
     Some [] \<and>
   fs (snd (separate_vocal_music hollow_env demo_file empty_world)) ''outputs/music_uuu.wav'' =
     Some [] \<and>
   fst (cut_audio silent_env demo_file (Fin 1) (Fin 2) empty_world) =
     Inl (HTTPException 500 ''Cut operation produced empty file'') \<and>
   fst (cut_audio hollow_env demo_file (Fin 1) (Fin 2) empty_world) =
     Inl (HTTPException 500 ''Cut operation produced empty file'')"
  by (simp add: separate_instruments_def separate_instruments_try_def
      separate_vocal_music_def separate_vocal_music_try_def cut_audio_def cut_try_def
      cut_command_def check_ffmpeg_def
      subprocess_run_def logger_def uuid4_def temp_input_def upload_suffix_def save_upload_def
      handle_errors_def cleanup_def path_exists_def st_size_def output_missing_or_empty_def
      commands_def band_command_def vocal_command_def music_command_def
      run_ffmpeg_command_def silent_env_def hollow_env_def demo_env_def demo_file_def
      empty_world_def Let_def float_ge_def float_le_def float_eq_def)

end
